theory Spec2Isabelle
  imports Complex_Main "HOL-Library.Sublist"
begin

section \<open>JavaScript values\<close>

text \<open>
  The handlers of this repository are Netlify functions written in JavaScript. They read
  JSON (the request body, the upstream envelope) by property access, so the embedding
  needs the values JSON.parse can produce, together with \<open>undefined\<close>, the result of
  reading a property that is not there. A number is held by the rational it denotes
  (every finite double is one); Infinity and NaN, which no handler produces from a
  JSON number of ordinary size, are not represented. An object is the list of its own
  properties, each key once.
\<close>

datatype jsval =
    JUndefined
  | JNull
  | JBool bool
  | JNum rat
  | JStr string
  | JArr "jsval list"
  | JObj "(string \<times> jsval) list"

text \<open>
  What a handler can throw: JSON.parse and response.json() throw a SyntaxError, a
  property read on null or undefined and a call of something that is not a function
  throw a TypeError, and \<open>new Error(message)\<close> carries its message. The messages of
  the first two are chosen by the JavaScript engine and are not modelled.
\<close>

datatype error = SyntaxError | TypeError | Error string

text \<open>The sequencing of statements that may throw: the first error ends the block.\<close>

definition bind_err :: "error + 'a \<Rightarrow> ('a \<Rightarrow> error + 'b) \<Rightarrow> error + 'b" where
  "bind_err m f = (case m of Inl e \<Rightarrow> Inl e | Inr x \<Rightarrow> f x)"

text \<open>\<open>!v\<close> is true exactly for the falsy values.\<close>

fun falsy :: "jsval \<Rightarrow> bool" where
  "falsy JUndefined = True"
| "falsy JNull = True"
| "falsy (JBool b) = (\<not> b)"
| "falsy (JNum r) = (r = 0)"
| "falsy (JStr s) = (s = [])"
| "falsy (JArr xs) = False"
| "falsy (JObj kvs) = False"

text \<open>
  \<open>v.k\<close> for the property names the handlers read (candidates, content, parts, text,
  totalNutrition, foodNames, base64ImageData, supportedFoods and the eight nutrition
  fields): none of them is a built-in property of a string, number, boolean or array, so
  only an object can have one.
\<close>

fun get_prop :: "string \<Rightarrow> jsval \<Rightarrow> error + jsval" where
  "get_prop k JUndefined = Inl TypeError"
| "get_prop k JNull = Inl TypeError"
| "get_prop k (JObj kvs) = Inr (case map_of kvs k of None \<Rightarrow> JUndefined | Some v \<Rightarrow> v)"
| "get_prop k v = Inr JUndefined"

text \<open>\<open>v[0]\<close>: the first element of an array, the first character of a string.\<close>

fun index0 :: "jsval \<Rightarrow> error + jsval" where
  "index0 JUndefined = Inl TypeError"
| "index0 JNull = Inl TypeError"
| "index0 (JArr xs) = Inr (case xs of [] \<Rightarrow> JUndefined | x # rest \<Rightarrow> x)"
| "index0 (JStr s) = Inr (case s of [] \<Rightarrow> JUndefined | c # rest \<Rightarrow> JStr [c])"
| "index0 (JObj kvs) = Inr (case map_of kvs ''0'' of None \<Rightarrow> JUndefined | Some v \<Rightarrow> v)"
| "index0 v = Inr JUndefined"

text \<open>
  \<open>const { k1, k2 } = v\<close> throws on null and undefined and reads two properties
  otherwise.
\<close>

definition destructure :: "string \<Rightarrow> string \<Rightarrow> jsval \<Rightarrow> error + (jsval \<times> jsval)" where
  "destructure k1 k2 v =
     bind_err (get_prop k1 v) (\<lambda>a. bind_err (get_prop k2 v) (\<lambda>b. Inr (a, b)))"

section \<open>Numbers and strings\<close>

definition digit_char :: "nat \<Rightarrow> char" where
  "digit_char d = ''0123456789'' ! d"

fun show_nat :: "nat \<Rightarrow> string" where
  "show_nat n =
     (if n < 10 then [digit_char n] else show_nat (n div 10) @ [digit_char (n mod 10)])"

text \<open>
  Number.prototype.toFixed(f) of ECMAScript, for the \<open>f\<close> the handlers pass (0 and 1):
  the sign goes first; a magnitude of at least 10^21 is rendered by Number::toString,
  which is the engine's and comes in as the parameter \<open>numstr\<close>; otherwise \<open>n\<close> is the
  integer nearest to \<open>x * 10^f\<close> (the larger one of two), written in decimal, padded with
  zeros to \<open>f + 1\<close> digits, with a point before the last \<open>f\<close> digits.
\<close>

definition toFixed :: "(rat \<Rightarrow> string) \<Rightarrow> rat \<Rightarrow> nat \<Rightarrow> string" where
  "toFixed numstr x0 f =
     (let s = (if x0 < 0 then ''-'' else []);
          x = \<bar>x0\<bar>
      in if 10 ^ 21 \<le> x then s @ numstr x
         else
           let n = nat \<lfloor>x * 10 ^ f + 1 / 2\<rfloor>;
               m0 = show_nat n;
               m = (if f \<noteq> 0 \<and> length m0 \<le> f
                    then replicate (f + 1 - length m0) (CHR ''0'') @ m0 else m0);
               k = length m
           in if f \<noteq> 0 then s @ take (k - f) m @ ''.'' @ drop (k - f) m else s @ m)"

text \<open>
  \<open>v.toFixed(f)\<close>: only a number has the method; on undefined and null the property read
  throws, on any other value the call of \<open>undefined\<close> does.
\<close>

fun toFixed_call :: "(rat \<Rightarrow> string) \<Rightarrow> jsval \<Rightarrow> nat \<Rightarrow> error + string" where
  "toFixed_call numstr (JNum x) f = Inr (toFixed numstr x f)"
| "toFixed_call numstr v f = Inl TypeError"

text \<open>
  Array.prototype.join: undefined and null elements give the empty string, every other
  element its ToString. A nested array is joined with a comma. An object goes through
  OrdinaryToPrimitive: with an own property \<open>toString\<close> (which, coming from JSON, is never
  a function) neither that property nor the inherited \<open>valueOf\<close> yields a primitive and a
  TypeError is thrown; without it Object.prototype.toString prints [object Object]. The
  elements are converted in order, and the first error ends the join.
\<close>

fun intersperse :: "string \<Rightarrow> string list \<Rightarrow> string" where
  "intersperse sep [] = []"
| "intersperse sep [x] = x"
| "intersperse sep (x # y # ys) = x @ sep @ intersperse sep (y # ys)"

fun collect :: "(error + 'a) list \<Rightarrow> error + 'a list" where
  "collect [] = Inr []"
| "collect (Inl e # rs) = Inl e"
| "collect (Inr x # rs) = (case collect rs of Inl e \<Rightarrow> Inl e | Inr xs \<Rightarrow> Inr (x # xs))"

fun element_string :: "(rat \<Rightarrow> string) \<Rightarrow> jsval \<Rightarrow> error + string" where
  "element_string numstr JUndefined = Inr []"
| "element_string numstr JNull = Inr []"
| "element_string numstr (JBool b) = Inr (if b then ''true'' else ''false'')"
| "element_string numstr (JNum r) = Inr (numstr r)"
| "element_string numstr (JStr s) = Inr s"
| "element_string numstr (JArr xs) =
     (case collect (map (element_string numstr) xs) of
        Inl e \<Rightarrow> Inl e
      | Inr ss \<Rightarrow> Inr (intersperse '','' ss))"
| "element_string numstr (JObj kvs) =
     (if map_of kvs ''toString'' \<noteq> None then Inl TypeError else Inr ''[object Object]'')"

text \<open>\<open>v.join(sep)\<close>: only an array has the method.\<close>

fun join_call :: "(rat \<Rightarrow> string) \<Rightarrow> jsval \<Rightarrow> string \<Rightarrow> error + string" where
  "join_call numstr (JArr xs) sep =
     (case collect (map (element_string numstr) xs) of
        Inl e \<Rightarrow> Inl e
      | Inr ss \<Rightarrow> Inr (intersperse sep ss))"
| "join_call numstr v sep = Inl TypeError"

section \<open>The upstream service and the effects of a handler\<close>

text \<open>
  A request as \<open>fetch(url, options)\<close> receives it; \<open>req_body\<close> is the payload object
  that the handler passes through JSON.stringify. A response has the status, the text
  that \<open>response.text()\<close> resolves to and the value \<open>response.json()\<close> resolves
  to (\<open>None\<close> when the text is not JSON and the call rejects with a SyntaxError).
\<close>

record request =
  url :: string
  req_method :: string
  req_headers :: "(string \<times> string) list"
  req_body :: jsval

record response =
  status :: nat
  resp_text :: string
  resp_json :: "jsval option"

text \<open>\<open>response.ok\<close>: the status is in the range 200 to 299.\<close>

definition ok :: "response \<Rightarrow> bool" where
  "ok r = (200 \<le> status r \<and> status r \<le> 299)"

datatype outcome = Rejected error | Resolved response

text \<open>
  A handler has two effects outside itself: it calls the upstream service and it waits
  (\<open>setTimeout\<close>). Both are recorded, in order, in a trace. The upstream service is any
  function from the number of calls already made and the request to the outcome of the
  call: the promise rejects (a transport failure) or resolves to a response.
\<close>

datatype effect = Fetch request | Sleep nat

type_synonym upstream = "nat \<Rightarrow> request \<Rightarrow> outcome"

fun is_fetch :: "effect \<Rightarrow> bool" where
  "is_fetch (Fetch r) = True"
| "is_fetch (Sleep ms) = False"

definition calls :: "effect list \<Rightarrow> nat" where
  "calls trace = length (filter is_fetch trace)"

fun sleeps :: "effect list \<Rightarrow> nat list" where
  "sleeps [] = []"
| "sleeps (Fetch r # es) = sleeps es"
| "sleeps (Sleep ms # es) = ms # sleeps es"

definition fetch :: "upstream \<Rightarrow> request \<Rightarrow> effect list \<Rightarrow> outcome \<times> effect list" where
  "fetch up req trace = (up (calls trace) req, trace @ [Fetch req])"

text \<open>
  The retry helper of the score handler (part_001 lines 71-96, part_002 lines 75-100);
  \<open>i\<close> is the loop counter. A response that is ok or has a status from 400 to 499 is
  returned at once; any other response, and a rejected call, is followed by a wait of
  \<open>delay * 2^i\<close> when \<open>i < retries - 1\<close>; a rejected call on the last round is thrown
  again; after the loop one more call is made and its outcome returned.
\<close>

function fetchWithRetry_loop ::
  "upstream \<Rightarrow> request \<Rightarrow> nat \<Rightarrow> nat \<Rightarrow> nat \<Rightarrow> effect list \<Rightarrow> outcome \<times> effect list" where
  "fetchWithRetry_loop up req retries delay i trace =
     (if i < retries then
        (let trace1 = snd (fetch up req trace) in
         case fst (fetch up req trace) of
           Resolved response \<Rightarrow>
             if ok response then (Resolved response, trace1)
             else if 400 \<le> status response \<and> status response < 500
               then (Resolved response, trace1)
             else if i < retries - 1
               then fetchWithRetry_loop up req retries delay (i + 1)
                      (trace1 @ [Sleep (delay * 2 ^ i)])
               else fetchWithRetry_loop up req retries delay (i + 1) trace1
         | Rejected err \<Rightarrow>
             if i < retries - 1
               then fetchWithRetry_loop up req retries delay (i + 1)
                      (trace1 @ [Sleep (delay * 2 ^ i)])
               else (Rejected err, trace1))
      else fetch up req trace)"
  by pat_completeness auto
termination
  by (relation "measure (\<lambda>(up, req, retries, delay, i, trace). retries - i)") auto

definition fetchWithRetry ::
  "upstream \<Rightarrow> request \<Rightarrow> nat \<Rightarrow> nat \<Rightarrow> effect list \<Rightarrow> outcome \<times> effect list" where
  "fetchWithRetry up req retries delay trace = fetchWithRetry_loop up req retries delay 0 trace"

section \<open>Prompt templates\<close>

text \<open>
  The fixed text of the three prompt templates, before and after the interpolated
  values. A character outside ASCII in the example messages (an emoji, a typographic
  quote or dash) is written as a question mark: no handler inspects the text. The
  template of part_001 (lines 27-58) is, character for character, that of
  netlify/functions/get-n-score.js (lines 28-59).
\<close>

definition prompt_opening_get_n_score :: string where
  \<open>prompt_opening_get_n_score =
     ''\<newline>'' @
     ''You are 'N-Score', the analysis AI for the "Nutri Scan" app. Your tone is '' @
     ''playful, motivating, and insightful, like a fun health coach. You NEVER '' @
     ''give medical advice.\<newline>'' @
     ''\<newline>'' @
     ''A user just ate a meal consisting of: ''\<close>

definition prompt_closing_get_n_score :: string where
  \<open>prompt_closing_get_n_score =
     ''\<newline>'' @
     ''\<newline>'' @
     ''Based on this data, provide two things in a valid JSON object:\<newline>'' @
     ''1.  "nScore": A holistic "N-Score" from 0 (least healthy) to 100 (most '' @
     ''healthy). Base this on a good balance of macros (protein, fat, carbs), '' @
     ''high fiber, and low sugar & sodium.\<newline>'' @
     ''2.  "message": A short, fun, and insightful statement (1-2 sentences) '' @
     ''about the meal, using one of these tones: Playful Awareness, Fun '' @
     ''Comparison, Positive Reinforcement, Smart Suggestion, or Educational '' @
     ''Insight.\<newline>'' @
     ''\<newline>'' @
     ''Example 1 (Healthy):\<newline>'' @
     ''{"nScore": 92, "message": "Broccoli wins again! ???? You???re fueling '' @
     ''clean ??? your body???s high-fiving you right now ????."}\<newline>'' @
     ''\<newline>'' @
     ''Example 2 (Unhealthy):\<newline>'' @
     ''{"nScore": 28, "message": "This snack is ultra-processed ???? and packed '' @
     ''with quick carbs ??? ??? good for taste buds, not your goals!"}\<newline>'' @
     ''\<newline>'' @
     ''Example 3 (Mixed):\<newline>'' @
     ''{"nScore": 65, "message": "This meal's score dropped because it's high in '' @
     ''sodium. A little less sauce next time = a higher N-Score! ????"}\<newline>'' @
     ''\<newline>'' @
     ''Example 4 (Sugary):\<newline>'' @
     ''{"nScore": 40, "message": "You just had 3 cookies??? worth of sugar '' @
     ''??????? disguised as a ???healthy bar??? ????."}\<newline>'' @
     ''\<newline>'' @
     ''Now, analyze the user's meal and provide the JSON response.\<newline>''\<close>

definition prompt_opening_part_002 :: string where
  \<open>prompt_opening_part_002 =
     ''\<newline>'' @
     ''You are 'N-Score', a stringent analysis AI for the "Nutri Scan" app. Your '' @
     ''tone is playful, motivating, and insightful, like a fun health coach. You '' @
     ''NEVER give medical advice.\<newline>'' @
     ''\<newline>'' @
     ''A user just ate a meal consisting of: ''\<close>

definition prompt_closing_part_002 :: string where
  \<open>prompt_closing_part_002 =
     ''\<newline>'' @
     ''\<newline>'' @
     ''**Scoring-Rules (CRITICAL):**\<newline>'' @
     ''Your "nScore" (0-100) MUST be accurate and strict.\<newline>'' @
     ''1.  **HIGHLY REWARD:**\<newline>'' @
     ''    * **High Fiber:** Very important.\<newline>'' @
     ''    * **High Protein-to-Calorie Ratio:** Good.\<newline>'' @
     ''    * **Whole Foods:** Foods like 'apple', 'broccoli', 'chicken breast', 'l'' @
     ''entil' are excellent.\<newline>'' @
     ''2.  **HEAVILY PENALIZE:**\<newline>'' @
     ''    * **High Sugar:** Especially if fiber is low.\<newline>'' @
     ''    * **High Sodium:** Anything over 500mg for a meal is bad.\<newline>'' @
     ''    * **High Fat:** Especially if protein is low.\<newline>'' @
     ''    * **Processed/Fried Foods:** Foods like 'samosa', 'pani puri', 'p'' @
     ''izza', 'donut' are unhealthy and must get a LOW score.\<newline>'' @
     ''\<newline>'' @
     ''**Example Scoring:**\<newline>'' @
     ''* **An 'apple' (150g):** (Cal: 78, P: 0.5g, F: 0.3g, C: 21g, Sugar: 15g, '' @
     ''Fiber: 3.6g, Na: 2mg) -> This is a perfect whole food. **nScore: '' @
     ''95-100**. Message: "An apple a day... ? That's a perfect 100-point snack! '' @
     ''Fueling smart."\<newline>'' @
     ''* **A 'samosa' (100g):** (Cal: 262, P: 5g, F: 17g, C: 24g, Sugar: 2g, '' @
     ''Fiber: 2.5g, Na: 420mg) -> This is fried, high-fat, high-sodium. '' @
     ''**nScore: 15-25**. Message: "That samosa was a tasty detour! ? Just know '' @
     ''it's heavy on refined carbs and fat."\<newline>'' @
     ''* **'Pani Puri' (100g):** (Cal: 270, P: 6g, F: 10g, C: 40g, Sugar: 5g, '' @
     ''Fiber: 4g, Na: 300mg) -> Fried, high-carb, high-sodium. **nScore: '' @
     ''20-30**. Message: "Pani puri! ? A flavor explosion, but also a sneak '' @
     ''attack of fried carbs and sodium."\<newline>'' @
     ''* **A 'salad' (200g):** (Cal: 150, P: 10g, F: 5g, C: 15g, Sugar: 5g, '' @
     ''Fiber: 8g, Na: 150mg) -> Excellent, high fiber, good protein. **nScore: '' @
     ''85-95**. Message: "Now THAT is a power-up! ? You?re fueling clean ? your '' @
     ''body?s high-fiving you right now ?."\<newline>'' @
     ''\<newline>'' @
     ''Now, analyze the user's meal based on these strict rules and provide the '' @
     ''JSON response:\<newline>'' @
     ''{"nScore": ..., "message": "..."}\<newline>''\<close>

definition prompt_opening_part_000 :: string where
  \<open>prompt_opening_part_000 =
     ''Analyze the image for edible food items. From this specific list ONLY: ''\<close>

definition prompt_closing_part_000 :: string where
  \<open>prompt_closing_part_000 =
     '', identify each food item visible. Ignore all non-food items, packaging, '' @
     ''or medication. For each identified food, provide its name, estimated '' @
     ''weight in grams, and a confidence score (0-1). Return a valid JSON array '' @
     ''of objects: [{"foodName": "...", "estimatedWeight": ..., '' @
     ''"confidenceScore": ...}]. If no listed foods are found, return an empty '' @
     ''array []. If you see something that looks like medication, return '' @
     ''[{"foodName": "medicine", "estimatedWeight": 0, "confidenceScore": 1}].''\<close>

text \<open>\<open>obj.k.toFixed(f)\<close> inside a template.\<close>

definition fixed_field :: "(rat \<Rightarrow> string) \<Rightarrow> jsval \<Rightarrow> string \<Rightarrow> nat \<Rightarrow> error + string" where
  "fixed_field numstr obj k f = bind_err (get_prop k obj) (\<lambda>v. toFixed_call numstr v f)"

text \<open>
  The prompt of netlify/functions/get-n-score.js (lines 28-59) and of part_001: the
  names joined by a comma and a space, or the words "a food item" when the joined text is
  empty, then seven values of the totals.
\<close>

definition prompt_get_n_score :: "(rat \<Rightarrow> string) \<Rightarrow> jsval \<Rightarrow> jsval \<Rightarrow> error + string" where
  "prompt_get_n_score numstr totalNutrition foodNames =
     bind_err (join_call numstr foodNames '', '') (\<lambda>names.
     bind_err (fixed_field numstr totalNutrition ''calories'' 0) (\<lambda>calories.
     bind_err (fixed_field numstr totalNutrition ''protein'' 1) (\<lambda>protein.
     bind_err (fixed_field numstr totalNutrition ''fat'' 1) (\<lambda>fat.
     bind_err (fixed_field numstr totalNutrition ''carbs'' 1) (\<lambda>carbs.
     bind_err (fixed_field numstr totalNutrition ''sugar'' 1) (\<lambda>sugar.
     bind_err (fixed_field numstr totalNutrition ''fiber'' 1) (\<lambda>fiber.
     bind_err (fixed_field numstr totalNutrition ''sodium'' 0) (\<lambda>sodium.
     Inr (prompt_opening_get_n_score @ (if names = [] then ''a food item'' else names) @
          ''.\<newline>\<newline>The meal's total nutritional breakdown is:\<newline>'' @
          ''- Calories: '' @ calories @ ''\<newline>'' @
          ''- Protein: '' @ protein @ ''g\<newline>'' @
          ''- Fat: '' @ fat @ ''g\<newline>'' @
          ''- Carbohydrates: '' @ carbs @ ''g\<newline>'' @
          ''- Sugar: '' @ sugar @ ''g\<newline>'' @
          ''- Fiber: '' @ fiber @ ''g\<newline>'' @
          ''- Sodium: '' @ sodium @ ''mg'' @
          prompt_closing_get_n_score)))))))))"

definition prompt_part_001 :: "(rat \<Rightarrow> string) \<Rightarrow> jsval \<Rightarrow> jsval \<Rightarrow> error + string" where
  "prompt_part_001 = prompt_get_n_score"

text \<open>The prompt of part_002 (lines 27-62), which adds the total weight.\<close>

definition prompt_part_002 :: "(rat \<Rightarrow> string) \<Rightarrow> jsval \<Rightarrow> jsval \<Rightarrow> error + string" where
  "prompt_part_002 numstr totalNutrition foodNames =
     bind_err (join_call numstr foodNames '', '') (\<lambda>names.
     bind_err (fixed_field numstr totalNutrition ''totalWeight'' 0) (\<lambda>totalWeight.
     bind_err (fixed_field numstr totalNutrition ''calories'' 0) (\<lambda>calories.
     bind_err (fixed_field numstr totalNutrition ''protein'' 1) (\<lambda>protein.
     bind_err (fixed_field numstr totalNutrition ''fat'' 1) (\<lambda>fat.
     bind_err (fixed_field numstr totalNutrition ''carbs'' 1) (\<lambda>carbs.
     bind_err (fixed_field numstr totalNutrition ''sugar'' 1) (\<lambda>sugar.
     bind_err (fixed_field numstr totalNutrition ''fiber'' 1) (\<lambda>fiber.
     bind_err (fixed_field numstr totalNutrition ''sodium'' 0) (\<lambda>sodium.
     Inr (prompt_opening_part_002 @ (if names = [] then ''a food item'' else names) @
          ''.\<newline>\<newline>The meal's total nutritional breakdown is:\<newline>'' @
          ''- Total Weight: '' @ totalWeight @ ''g\<newline>'' @
          ''- Calories: '' @ calories @ ''\<newline>'' @
          ''- Protein: '' @ protein @ ''g\<newline>'' @
          ''- Fat: '' @ fat @ ''g\<newline>'' @
          ''- Carbohydrates: '' @ carbs @ ''g\<newline>'' @
          ''- Sugar: '' @ sugar @ ''g\<newline>'' @
          ''- Fiber: '' @ fiber @ ''g\<newline>'' @
          ''- Sodium: '' @ sodium @ ''mg'' @
          prompt_closing_part_002))))))))))"

text \<open>The prompt of the recognition handler (part_000 line 15).\<close>

definition prompt_part_000 :: "(rat \<Rightarrow> string) \<Rightarrow> jsval \<Rightarrow> error + string" where
  "prompt_part_000 numstr supportedFoods =
     bind_err (join_call numstr supportedFoods '', '') (\<lambda>foods.
     Inr (prompt_opening_part_000 @ foods @ prompt_closing_part_000))"

section \<open>The handlers\<close>

text \<open>
  An event carries the method and the body; \<open>body\<close> holds what \<open>JSON.parse(event.body)\<close>
  returns, \<open>None\<close> when it throws a SyntaxError. The body of a reply is a literal text, the
  JSON.stringify of a value, the JSON.stringify of \<open>{ error: error.message }\<close> for a caught
  error, or a value handed over as it is.
\<close>

record event =
  httpMethod :: string
  body :: "jsval option"

datatype body_value = Plain string | Stringified jsval | ErrorJson error | Verbatim jsval

record reply =
  statusCode :: nat
  headers :: "(string \<times> string) list"
  reply_body :: body_value

definition method_not_allowed :: reply where
  "method_not_allowed =
     \<lparr>statusCode = 405, headers = [], reply_body = Plain ''Method Not Allowed''\<rparr>"

definition missing_totalNutrition :: reply where
  "missing_totalNutrition =
     \<lparr>statusCode = 400, headers = [],
      reply_body = Stringified (JObj [(''error'', JStr ''Missing totalNutrition data.'')])\<rparr>"

text \<open>The catch block of every handler: status 500 and the message of the error.\<close>

definition internal_error :: "error \<Rightarrow> reply" where
  "internal_error e = \<lparr>statusCode = 500, headers = [], reply_body = ErrorJson e\<rparr>"

definition catch_error :: "(error + reply) \<times> effect list \<Rightarrow> reply \<times> effect list" where
  "catch_error r = (case fst r of Inl e \<Rightarrow> internal_error e | Inr x \<Rightarrow> x, snd r)"

definition apiUrl :: "string \<Rightarrow> string option \<Rightarrow> string" where
  "apiUrl model apiKey =
     ''https://generativelanguage.googleapis.com/v1beta/models/'' @ model @
     '':generateContent?key='' @ (case apiKey of None \<Rightarrow> ''undefined'' | Some k \<Rightarrow> k)"

definition json_headers :: "(string \<times> string) list" where
  "json_headers = [(''Content-Type'', ''application/json'')]"

definition score_request :: "string \<Rightarrow> string \<Rightarrow> request" where
  "score_request u prompt =
     \<lparr>url = u, req_method = ''POST'', req_headers = json_headers,
      req_body = JObj
        [(''contents'', JArr [JObj [(''parts'', JArr [JObj [(''text'', JStr prompt)]])]]),
         (''generationConfig'', JObj [(''responseMimeType'', JStr ''application/json'')])]\<rparr>"

definition recognition_request :: "string \<Rightarrow> string \<Rightarrow> jsval \<Rightarrow> request" where
  "recognition_request u prompt base64ImageData =
     \<lparr>url = u, req_method = ''POST'', req_headers = json_headers,
      req_body = JObj
        [(''contents'', JArr [JObj [(''parts'', JArr
           [JObj [(''text'', JStr prompt)],
            JObj [(''inlineData'',
              JObj [(''mimeType'', JStr ''image/jpeg''), (''data'', base64ImageData)])]])]])]\<rparr>"

text \<open>\<open>throw new Error(`API error ${response.status}: ${errorText}`)\<close>\<close>

definition api_error :: "response \<Rightarrow> error" where
  "api_error response =
     Error (''API error '' @ show_nat (status response) @ '': '' @ resp_text response)"

text \<open>\<open>result.candidates[0].content.parts[0].text\<close>\<close>

definition generatedJson :: "jsval \<Rightarrow> error + jsval" where
  "generatedJson result =
     bind_err (get_prop ''candidates'' result) (\<lambda>candidates.
     bind_err (index0 candidates) (\<lambda>candidate.
     bind_err (get_prop ''content'' candidate) (\<lambda>content.
     bind_err (get_prop ''parts'' content) (\<lambda>parts.
     bind_err (index0 parts) (\<lambda>part.
     get_prop ''text'' part)))))"

text \<open>
  The condition of part_001 line 114 (part_002 line 118), a chain of \<open>||\<close> that stops at
  the first falsy step:
  \<^verbatim>\<open>!result.candidates || !result.candidates[0] || !result.candidates[0].content ||
  !result.candidates[0].content.parts[0] || !result.candidates[0].content.parts[0].text\<close>
\<close>

definition invalid_structure :: "jsval \<Rightarrow> error + bool" where
  "invalid_structure result =
     bind_err (get_prop ''candidates'' result) (\<lambda>candidates.
     if falsy candidates then Inr True else
     bind_err (index0 candidates) (\<lambda>candidate.
     if falsy candidate then Inr True else
     bind_err (get_prop ''content'' candidate) (\<lambda>content.
     if falsy content then Inr True else
     bind_err (get_prop ''parts'' content) (\<lambda>parts.
     bind_err (index0 parts) (\<lambda>part.
     if falsy part then Inr True else
     bind_err (get_prop ''text'' part) (\<lambda>text. Inr (falsy text)))))))"

definition success :: "jsval \<Rightarrow> reply" where
  "success generated = \<lparr>statusCode = 200, headers = json_headers, reply_body = Verbatim generated\<rparr>"

text \<open>From the response to the reply: netlify/functions/get-n-score.js lines 77-92.\<close>

definition respond_get_n_score :: "response \<Rightarrow> error + reply" where
  "respond_get_n_score response =
     (if \<not> ok response then Inl (api_error response)
      else case resp_json response of
             None \<Rightarrow> Inl SyntaxError
           | Some result \<Rightarrow> bind_err (generatedJson result) (\<lambda>generated. Inr (success generated)))"

text \<open>From the response to the reply: part_001 lines 105-127, part_002 lines 109-131.\<close>

definition respond_checked :: "response \<Rightarrow> error + reply" where
  "respond_checked response =
     (if \<not> ok response then Inl (api_error response)
      else case resp_json response of
             None \<Rightarrow> Inl SyntaxError
           | Some result \<Rightarrow>
               bind_err (invalid_structure result) (\<lambda>invalid.
               if invalid then Inl (Error ''Invalid API response structure.'')
               else bind_err (generatedJson result) (\<lambda>generated. Inr (success generated))))"

text \<open>From the response to the reply: part_000 lines 32-42.\<close>

definition respond_part_000 :: "response \<Rightarrow> error + reply" where
  "respond_part_000 response =
     (if \<not> ok response then Inl (api_error response)
      else case resp_json response of
             None \<Rightarrow> Inl SyntaxError
           | Some result \<Rightarrow>
               Inr \<lparr>statusCode = 200, headers = [], reply_body = Stringified result\<rparr>)"

text \<open>
  The score handler of netlify/functions/get-n-score.js: one call of the upstream
  service, no check of the envelope. The parameters are the engine's Number::toString,
  the environment's GOOGLE_API_KEY, the upstream service and the event; the result is the
  reply and the trace of effects.
\<close>

definition handler_get_n_score ::
  "(rat \<Rightarrow> string) \<Rightarrow> string option \<Rightarrow> upstream \<Rightarrow> event \<Rightarrow> reply \<times> effect list" where
  "handler_get_n_score numstr apiKey up event =
     (if httpMethod event \<noteq> ''POST'' then (method_not_allowed, [])
      else catch_error
        (case body event of
           None \<Rightarrow> (Inl SyntaxError, [])
         | Some b \<Rightarrow>
             (case destructure ''totalNutrition'' ''foodNames'' b of
                Inl e \<Rightarrow> (Inl e, [])
              | Inr (totalNutrition, foodNames) \<Rightarrow>
                  if falsy totalNutrition then (Inr missing_totalNutrition, [])
                  else
                    (case prompt_get_n_score numstr totalNutrition foodNames of
                       Inl e \<Rightarrow> (Inl e, [])
                     | Inr prompt \<Rightarrow>
                         (case fetch up
                                 (score_request (apiUrl ''gemini-1.5-flash-latest'' apiKey) prompt) [] of
                            (Rejected e, trace) \<Rightarrow> (Inl e, trace)
                          | (Resolved response, trace) \<Rightarrow>
                              (respond_get_n_score response, trace))))))"

text \<open>The score handler of part_001: the retry helper and the check of the envelope.\<close>

definition handler_part_001 ::
  "(rat \<Rightarrow> string) \<Rightarrow> string option \<Rightarrow> upstream \<Rightarrow> event \<Rightarrow> reply \<times> effect list" where
  "handler_part_001 numstr apiKey up event =
     (if httpMethod event \<noteq> ''POST'' then (method_not_allowed, [])
      else catch_error
        (case body event of
           None \<Rightarrow> (Inl SyntaxError, [])
         | Some b \<Rightarrow>
             (case destructure ''totalNutrition'' ''foodNames'' b of
                Inl e \<Rightarrow> (Inl e, [])
              | Inr (totalNutrition, foodNames) \<Rightarrow>
                  if falsy totalNutrition then (Inr missing_totalNutrition, [])
                  else
                    (case prompt_part_001 numstr totalNutrition foodNames of
                       Inl e \<Rightarrow> (Inl e, [])
                     | Inr prompt \<Rightarrow>
                         (case fetchWithRetry up
                                 (score_request
                                    (apiUrl ''gemini-2.5-flash-preview-09-2025'' apiKey) prompt)
                                 3 1000 [] of
                            (Rejected e, trace) \<Rightarrow> (Inl e, trace)
                          | (Resolved response, trace) \<Rightarrow>
                              (respond_checked response, trace))))))"

text \<open>The score handler of part_002: that of part_001 with the prompt of part_002.\<close>

definition handler_part_002 ::
  "(rat \<Rightarrow> string) \<Rightarrow> string option \<Rightarrow> upstream \<Rightarrow> event \<Rightarrow> reply \<times> effect list" where
  "handler_part_002 numstr apiKey up event =
     (if httpMethod event \<noteq> ''POST'' then (method_not_allowed, [])
      else catch_error
        (case body event of
           None \<Rightarrow> (Inl SyntaxError, [])
         | Some b \<Rightarrow>
             (case destructure ''totalNutrition'' ''foodNames'' b of
                Inl e \<Rightarrow> (Inl e, [])
              | Inr (totalNutrition, foodNames) \<Rightarrow>
                  if falsy totalNutrition then (Inr missing_totalNutrition, [])
                  else
                    (case prompt_part_002 numstr totalNutrition foodNames of
                       Inl e \<Rightarrow> (Inl e, [])
                     | Inr prompt \<Rightarrow>
                         (case fetchWithRetry up
                                 (score_request
                                    (apiUrl ''gemini-2.5-flash-preview-09-2025'' apiKey) prompt)
                                 3 1000 [] of
                            (Rejected e, trace) \<Rightarrow> (Inl e, trace)
                          | (Resolved response, trace) \<Rightarrow>
                              (respond_checked response, trace))))))"

text \<open>The recognition handler of part_000: one call of the upstream service.\<close>

definition handler_part_000 ::
  "(rat \<Rightarrow> string) \<Rightarrow> string option \<Rightarrow> upstream \<Rightarrow> event \<Rightarrow> reply \<times> effect list" where
  "handler_part_000 numstr apiKey up event =
     (if httpMethod event \<noteq> ''POST'' then (method_not_allowed, [])
      else catch_error
        (case body event of
           None \<Rightarrow> (Inl SyntaxError, [])
         | Some b \<Rightarrow>
             (case destructure ''base64ImageData'' ''supportedFoods'' b of
                Inl e \<Rightarrow> (Inl e, [])
              | Inr (base64ImageData, supportedFoods) \<Rightarrow>
                  (case prompt_part_000 numstr supportedFoods of
                     Inl e \<Rightarrow> (Inl e, [])
                   | Inr prompt \<Rightarrow>
                       (case fetch up
                               (recognition_request
                                  (apiUrl ''gemini-2.5-flash-preview-05-20'' apiKey)
                                  prompt base64ImageData) [] of
                          (Rejected e, trace) \<Rightarrow> (Inl e, trace)
                        | (Resolved response, trace) \<Rightarrow>
                            (respond_part_000 response, trace))))))"

text \<open>
  The handlers also write to the console (\<open>console.error\<close>) before they throw and when
  they catch; the console is not part of the trace, since no reply depends on it.
\<close>

section \<open>Notions used to state the properties\<close>

text \<open>
  The outcomes after which the loop of \<open>fetchWithRetry\<close> goes round again: a rejected
  call, and a response that is neither ok nor in the range 400 to 499.
\<close>

definition retried :: "outcome \<Rightarrow> bool" where
  "retried out =
     (case out of
        Rejected e \<Rightarrow> True
      | Resolved r \<Rightarrow> \<not> ok r \<and> \<not> (400 \<le> status r \<and> status r < 500))"

text \<open>
  A text is a decimal numeral with exactly \<open>f\<close> places: an optional minus sign, at least
  one digit, and then nothing when \<open>f = 0\<close>, a point and \<open>f\<close> digits otherwise.
\<close>

definition is_digit :: "char \<Rightarrow> bool" where
  "is_digit c = (c \<in> set ''0123456789'')"

definition decimal_places :: "nat \<Rightarrow> string \<Rightarrow> bool" where
  "decimal_places f s =
     (let unsigned = (case s of [] \<Rightarrow> [] | c # cs \<Rightarrow> if c = CHR ''-'' then cs else s);
          whole = takeWhile is_digit unsigned;
          rest = dropWhile is_digit unsigned
      in whole \<noteq> [] \<and>
         (if f = 0 then rest = []
          else take 1 rest = ''.'' \<and> length (drop 1 rest) = f \<and> list_all is_digit (drop 1 rest)))"

text \<open>
  The totals the prompt of part_002 can render in plain decimals: each of the eight
  fields is a number of magnitude below 10^21 (from there on toFixed switches to the
  exponent notation of Number::toString).
\<close>

definition plain_number :: "jsval \<Rightarrow> bool" where
  "plain_number v = (case v of JNum x \<Rightarrow> \<bar>x\<bar> < 10 ^ 21 | _ \<Rightarrow> False)"

definition field :: "string \<Rightarrow> jsval \<Rightarrow> jsval" where
  "field k obj = (case get_prop k obj of Inl e \<Rightarrow> JUndefined | Inr v \<Rightarrow> v)"

definition number_of :: "jsval \<Rightarrow> rat" where
  "number_of v = (case v of JNum x \<Rightarrow> x | _ \<Rightarrow> 0)"

definition valid_totals :: "jsval \<Rightarrow> bool" where
  "valid_totals totalNutrition =
     (plain_number (field ''totalWeight'' totalNutrition) \<and>
      plain_number (field ''calories'' totalNutrition) \<and>
      plain_number (field ''protein'' totalNutrition) \<and>
      plain_number (field ''fat'' totalNutrition) \<and>
      plain_number (field ''carbs'' totalNutrition) \<and>
      plain_number (field ''sugar'' totalNutrition) \<and>
      plain_number (field ''fiber'' totalNutrition) \<and>
      plain_number (field ''sodium'' totalNutrition))"

text \<open>\<open>fixed numstr k f obj\<close> is the text \<open>obj.k.toFixed(f)\<close> of a numeric field.\<close>

definition fixed :: "(rat \<Rightarrow> string) \<Rightarrow> string \<Rightarrow> nat \<Rightarrow> jsval \<Rightarrow> string" where
  "fixed numstr k f obj = toFixed numstr (number_of (field k obj)) f"

text \<open>
  The events on which a score handler gets as far as the upstream call, and the prompt
  it sends: the method is POST, the body parses, the destructuring succeeds,
  totalNutrition is truthy and the template renders.
\<close>

definition reaches_upstream ::
  "((rat \<Rightarrow> string) \<Rightarrow> jsval \<Rightarrow> jsval \<Rightarrow> error + string) \<Rightarrow> (rat \<Rightarrow> string) \<Rightarrow> event \<Rightarrow> string \<Rightarrow> bool" where
  "reaches_upstream prompt_of numstr event prompt =
     (httpMethod event = ''POST'' \<and>
      (case body event of
         None \<Rightarrow> False
       | Some b \<Rightarrow>
           (case destructure ''totalNutrition'' ''foodNames'' b of
              Inl e \<Rightarrow> False
            | Inr (totalNutrition, foodNames) \<Rightarrow>
                \<not> falsy totalNutrition \<and> prompt_of numstr totalNutrition foodNames = Inr prompt)))"

section \<open>Sample inputs\<close>

definition sample_totals :: jsval where
  "sample_totals =
     JObj [(''calories'', JNum 250), (''protein'', JNum (25 / 2)), (''fat'', JNum (1 / 4)),
           (''carbs'', JNum 30), (''sugar'', JNum (1 / 20)), (''fiber'', JNum 0),
           (''sodium'', JNum (1999 / 2)), (''totalWeight'', JNum (3001 / 2))]"

definition sample_names :: "jsval list" where
  "sample_names = [JStr ''apple'', JStr ''rice'']"

definition sample_event :: event where
  "sample_event =
     \<lparr>httpMethod = ''POST'',
      body = Some (JObj [(''totalNutrition'', sample_totals), (''foodNames'', JArr sample_names)])\<rparr>"

definition sample_text :: string where
  \<open>sample_text = ''{"nScore":80,"message":"ok"}''\<close>

text \<open>An upstream envelope with the generated text at \<open>candidates[0].content.parts[0].text\<close>.\<close>

definition envelope :: "jsval \<Rightarrow> jsval" where
  "envelope generated =
     JObj [(''candidates'',
       JArr [JObj [(''content'', JObj [(''parts'', JArr [JObj [(''text'', generated)]])])]])]"

definition answer :: "nat \<Rightarrow> string \<Rightarrow> jsval option \<Rightarrow> outcome" where
  "answer code txt parsed = Resolved \<lparr>status = code, resp_text = txt, resp_json = parsed\<rparr>"

section \<open>The request gate and the validation of the body\<close>

text \<open>
  C9. A request whose method is not POST gets status 405 with the body "Method Not
  Allowed" from each of the four handlers, and the trace of effects is empty: nothing
  else is done, and in particular the upstream service is not called.
\<close>

theorem method_gate:
  assumes "httpMethod event \<noteq> ''POST''"
  shows "handler_part_000 numstr apiKey up event =
           (\<lparr>statusCode = 405, headers = [], reply_body = Plain ''Method Not Allowed''\<rparr>, []) \<and>
         handler_get_n_score numstr apiKey up event =
           (\<lparr>statusCode = 405, headers = [], reply_body = Plain ''Method Not Allowed''\<rparr>, []) \<and>
         handler_part_001 numstr apiKey up event =
           (\<lparr>statusCode = 405, headers = [], reply_body = Plain ''Method Not Allowed''\<rparr>, []) \<and>
         handler_part_002 numstr apiKey up event =
           (\<lparr>statusCode = 405, headers = [], reply_body = Plain ''Method Not Allowed''\<rparr>, [])"
  using assms
  by (simp add: handler_part_000_def handler_get_n_score_def handler_part_001_def
      handler_part_002_def method_not_allowed_def)

theorem method_gate_witness:
  "handler_part_000 (\<lambda>r. []) None (\<lambda>n req. Rejected TypeError)
       \<lparr>httpMethod = ''GET'', body = None\<rparr> =
     (\<lparr>statusCode = 405, headers = [], reply_body = Plain ''Method Not Allowed''\<rparr>, []) \<and>
   calls (snd (handler_part_002 (\<lambda>r. []) None (\<lambda>n req. Rejected TypeError)
       \<lparr>httpMethod = ''GET'', body = None\<rparr>)) = 0"
  using method_gate [where event = "\<lparr>httpMethod = ''GET'', body = None\<rparr>"
      and numstr = "\<lambda>r. []" and apiKey = None and up = "\<lambda>n req. Rejected TypeError"]
  by (simp add: calls_def)

text \<open>
  C10. A POST request whose body is not JSON (JSON.parse throws) gets status 500, not
  400, with the message of the SyntaxError under the key "error", from each of the four
  handlers, and the upstream service is not called.
\<close>

theorem unparseable_body:
  assumes "httpMethod event = ''POST''" and "body event = None"
  shows "handler_part_000 numstr apiKey up event =
           (\<lparr>statusCode = 500, headers = [], reply_body = ErrorJson SyntaxError\<rparr>, []) \<and>
         handler_get_n_score numstr apiKey up event =
           (\<lparr>statusCode = 500, headers = [], reply_body = ErrorJson SyntaxError\<rparr>, []) \<and>
         handler_part_001 numstr apiKey up event =
           (\<lparr>statusCode = 500, headers = [], reply_body = ErrorJson SyntaxError\<rparr>, []) \<and>
         handler_part_002 numstr apiKey up event =
           (\<lparr>statusCode = 500, headers = [], reply_body = ErrorJson SyntaxError\<rparr>, [])"
  using assms
  by (simp add: handler_part_000_def handler_get_n_score_def handler_part_001_def
      handler_part_002_def catch_error_def internal_error_def)

theorem unparseable_body_witness:
  "statusCode (fst (handler_part_000 (\<lambda>r. []) None (\<lambda>n req. Rejected TypeError)
       \<lparr>httpMethod = ''POST'', body = None\<rparr>)) = 500 \<and>
   handler_part_002 (\<lambda>r. []) None (\<lambda>n req. Rejected TypeError)
       \<lparr>httpMethod = ''POST'', body = None\<rparr> =
     (\<lparr>statusCode = 500, headers = [], reply_body = ErrorJson SyntaxError\<rparr>, [])"
  using unparseable_body [where event = "\<lparr>httpMethod = ''POST'', body = None\<rparr>"
      and numstr = "\<lambda>r. []" and apiKey = None and up = "\<lambda>n req. Rejected TypeError"]
  by simp

text \<open>
  C7, as amended. A POST request to a score handler whose parsed body is not \<open>null\<close> and
  has a falsy totalNutrition (the property is absent, or null, 0, false or the empty
  string) gets status 400 with the body \<open>{"error":"Missing totalNutrition data."}\<close>, and
  the upstream service is not called. This holds for the three score handlers and for
  every value JSON.parse can return but \<open>null\<close> (it never returns \<open>undefined\<close>).
\<close>

theorem missing_totals:
  assumes "httpMethod event = ''POST''" and "body event = Some b"
    and "b \<noteq> JNull" and "b \<noteq> JUndefined"
    and "falsy (field ''totalNutrition'' b)"
  shows "handler_get_n_score numstr apiKey up event =
           (\<lparr>statusCode = 400, headers = [],
             reply_body = Stringified (JObj [(''error'', JStr ''Missing totalNutrition data.'')])\<rparr>,
            []) \<and>
         handler_part_001 numstr apiKey up event =
           (\<lparr>statusCode = 400, headers = [],
             reply_body = Stringified (JObj [(''error'', JStr ''Missing totalNutrition data.'')])\<rparr>,
            []) \<and>
         handler_part_002 numstr apiKey up event =
           (\<lparr>statusCode = 400, headers = [],
             reply_body = Stringified (JObj [(''error'', JStr ''Missing totalNutrition data.'')])\<rparr>,
            [])"
proof -
  from assms(3,4) obtain totalNutrition foodNames
    where "get_prop ''totalNutrition'' b = Inr totalNutrition"
      and "get_prop ''foodNames'' b = Inr foodNames"
    by (cases b) auto
  with assms(5)
  have "destructure ''totalNutrition'' ''foodNames'' b = Inr (totalNutrition, foodNames)"
    and "falsy totalNutrition"
    by (simp_all add: destructure_def bind_err_def field_def)
  with assms show ?thesis
    by (simp add: handler_get_n_score_def handler_part_001_def handler_part_002_def
        catch_error_def missing_totalNutrition_def)
qed

theorem missing_totals_witness:
  "handler_part_002 (\<lambda>r. []) None (\<lambda>n req. Rejected TypeError)
       \<lparr>httpMethod = ''POST'', body = Some (JObj [(''foodNames'', JArr [])])\<rparr> =
     (\<lparr>statusCode = 400, headers = [],
       reply_body = Stringified (JObj [(''error'', JStr ''Missing totalNutrition data.'')])\<rparr>, [])"
  using missing_totals [where event =
        "\<lparr>httpMethod = ''POST'', body = Some (JObj [(''foodNames'', JArr [])])\<rparr>"
      and b = "JObj [(''foodNames'', JArr [])]"
      and numstr = "\<lambda>r. []" and apiKey = None and up = "\<lambda>n req. Rejected TypeError"]
  by (simp add: field_def)

text \<open>
  The claim as written covers every parsed body without the field. The body \<open>null\<close> has
  no totalNutrition either, but the destructuring of \<open>null\<close> throws before the check is
  reached, and the reply has status 500.
\<close>

theorem null_body_is_an_internal_error:
  "handler_get_n_score (\<lambda>r. []) None (\<lambda>n req. Rejected TypeError)
       \<lparr>httpMethod = ''POST'', body = Some JNull\<rparr> =
     (\<lparr>statusCode = 500, headers = [], reply_body = ErrorJson TypeError\<rparr>, []) \<and>
   handler_part_001 (\<lambda>r. []) None (\<lambda>n req. Rejected TypeError)
       \<lparr>httpMethod = ''POST'', body = Some JNull\<rparr> =
     (\<lparr>statusCode = 500, headers = [], reply_body = ErrorJson TypeError\<rparr>, []) \<and>
   handler_part_002 (\<lambda>r. []) None (\<lambda>n req. Rejected TypeError)
       \<lparr>httpMethod = ''POST'', body = Some JNull\<rparr> =
     (\<lparr>statusCode = 500, headers = [], reply_body = ErrorJson TypeError\<rparr>, [])"
  by (simp add: handler_get_n_score_def handler_part_001_def handler_part_002_def
      catch_error_def internal_error_def destructure_def bind_err_def)

section \<open>The retry helper\<close>

text \<open>
  The equation of \<open>fetchWithRetry_loop\<close> rewrites a call of the loop by its body, which
  calls the loop again, so it is taken out of the simplifier's rules and unfolded one
  round at a time.
\<close>

declare fetchWithRetry_loop.simps [simp del]

lemma calls_snoc [simp]:
  "calls (trace @ [Fetch req]) = Suc (calls trace)"
  "calls (trace @ [Fetch req, Sleep ms]) = Suc (calls trace)"
  "calls [] = 0"
  "calls (Fetch req # es) = Suc (calls es)"
  "calls (Sleep ms # es) = calls es"
  by (simp_all add: calls_def)

lemma loop_return:
  assumes "i < retries" and "up (calls trace) req = Resolved r"
    and "ok r \<or> (400 \<le> status r \<and> status r < 500)"
  shows "fetchWithRetry_loop up req retries delay i trace = (Resolved r, trace @ [Fetch req])"
  using assms by (subst fetchWithRetry_loop.simps) (auto simp: fetch_def Let_def)

lemma loop_retry:
  assumes "i + 1 < retries" and "retried (up (calls trace) req)"
  shows "fetchWithRetry_loop up req retries delay i trace =
         fetchWithRetry_loop up req retries delay (i + 1) (trace @ [Fetch req, Sleep (delay * 2 ^ i)])"
  using assms
  by (subst fetchWithRetry_loop.simps) (auto simp: fetch_def Let_def retried_def split: outcome.splits)

lemma loop_last_rejected:
  assumes "i + 1 = retries" and "up (calls trace) req = Rejected e"
  shows "fetchWithRetry_loop up req retries delay i trace = (Rejected e, trace @ [Fetch req])"
  using assms by (subst fetchWithRetry_loop.simps) (auto simp: fetch_def Let_def)

lemma loop_exit:
  assumes "\<not> i < retries"
  shows "fetchWithRetry_loop up req retries delay i trace = (up (calls trace) req, trace @ [Fetch req])"
  using assms by (subst fetchWithRetry_loop.simps) (simp add: fetch_def)

lemma loop_last_retried:
  assumes "i + 1 = retries" and "up (calls trace) req = Resolved r"
    and "\<not> ok r" and "\<not> (400 \<le> status r \<and> status r < 500)"
  shows "fetchWithRetry_loop up req retries delay i trace =
         (up (Suc (calls trace)) req, trace @ [Fetch req, Fetch req])"
  using assms
  by (subst fetchWithRetry_loop.simps) (auto simp: fetch_def Let_def loop_exit)

text \<open>The five ways a run of three rounds can go.\<close>

lemma retry_first:
  assumes "up 0 req = Resolved r" and "ok r \<or> (400 \<le> status r \<and> status r < 500)"
  shows "fetchWithRetry up req 3 delay [] = (Resolved r, [Fetch req])"
  using assms by (simp add: fetchWithRetry_def loop_return)

lemma retry_second:
  assumes "retried (up 0 req)" and "up 1 req = Resolved r"
    and "ok r \<or> (400 \<le> status r \<and> status r < 500)"
  shows "fetchWithRetry up req 3 delay [] = (Resolved r, [Fetch req, Sleep delay, Fetch req])"
  using assms by (simp add: fetchWithRetry_def loop_retry loop_return)

lemma retry_third:
  assumes "retried (up 0 req)" and "retried (up 1 req)" and "up 2 req = Resolved r"
    and "ok r \<or> (400 \<le> status r \<and> status r < 500)"
  shows "fetchWithRetry up req 3 delay [] =
         (Resolved r, [Fetch req, Sleep delay, Fetch req, Sleep (delay * 2), Fetch req])"
  using assms by (simp add: fetchWithRetry_def loop_retry loop_return numeral_2_eq_2)

lemma retry_third_rejected:
  assumes "retried (up 0 req)" and "retried (up 1 req)" and "up 2 req = Rejected e"
  shows "fetchWithRetry up req 3 delay [] =
         (Rejected e, [Fetch req, Sleep delay, Fetch req, Sleep (delay * 2), Fetch req])"
  using assms by (simp add: fetchWithRetry_def loop_retry loop_last_rejected numeral_2_eq_2)

lemma retry_exhausted:
  assumes "retried (up 0 req)" and "retried (up 1 req)" and "up 2 req = Resolved r"
    and "\<not> ok r" and "\<not> (400 \<le> status r \<and> status r < 500)"
  shows "fetchWithRetry up req 3 delay [] =
         (up 3 req, [Fetch req, Sleep delay, Fetch req, Sleep (delay * 2), Fetch req, Fetch req])"
  using assms by (simp add: fetchWithRetry_def loop_retry loop_last_retried numeral_2_eq_2 numeral_3_eq_3)

text \<open>
  C3. The wait after round \<open>i\<close> of the loop is \<open>delay * 2^i\<close> milliseconds whenever
  another round remains and the call was rejected or answered with a status that is
  retried. With 3 rounds and a delay of 1000 the trace therefore starts with a call and
  a wait of 1000 after a first retried round, and goes on with a call and a wait of 2000
  after a second; the waits of any run are none, 1000, or 1000 then 2000, so they never
  decrease. A call rejected in the last round of the loop is thrown to the caller, and no
  further call is made.
\<close>

theorem backoff_delays:
  "(i + 1 < retries \<and> retried (up (calls trace) req) \<longrightarrow>
      fetchWithRetry_loop up req retries delay i trace =
      fetchWithRetry_loop up req retries delay (i + 1)
        (trace @ [Fetch req, Sleep (delay * 2 ^ i)])) \<and>
   (retried (up 0 req) \<longrightarrow>
      take 2 (snd (fetchWithRetry up req 3 1000 [])) = [Fetch req, Sleep (1000 * 2 ^ 0)]) \<and>
   (retried (up 0 req) \<and> retried (up 1 req) \<longrightarrow>
      take 4 (snd (fetchWithRetry up req 3 1000 [])) =
        [Fetch req, Sleep (1000 * 2 ^ 0), Fetch req, Sleep (1000 * 2 ^ 1)]) \<and>
   sleeps (snd (fetchWithRetry up req 3 1000 [])) \<in> {[], [1000], [1000, 2000]} \<and>
   (retried (up 0 req) \<and> retried (up 1 req) \<and> up 2 req = Rejected e \<longrightarrow>
      fetchWithRetry up req 3 1000 [] =
        (Rejected e, [Fetch req, Sleep 1000, Fetch req, Sleep 2000, Fetch req]))"
proof -
  let ?run = "fetchWithRetry up req 3 1000 []"
  have shape: "snd ?run = [Fetch req] \<or>
      snd ?run = [Fetch req, Sleep 1000, Fetch req] \<or>
      snd ?run = [Fetch req, Sleep 1000, Fetch req, Sleep 2000, Fetch req] \<or>
      snd ?run = [Fetch req, Sleep 1000, Fetch req, Sleep 2000, Fetch req, Fetch req]"
  proof (cases "retried (up 0 req)")
    case False
    then obtain r where "up 0 req = Resolved r" "ok r \<or> (400 \<le> status r \<and> status r < 500)"
      by (auto simp: retried_def split: outcome.splits)
    then show ?thesis by (simp add: retry_first)
  next
    case r0: True
    show ?thesis
    proof (cases "retried (up 1 req)")
      case False
      then obtain r where "up 1 req = Resolved r" "ok r \<or> (400 \<le> status r \<and> status r < 500)"
        by (auto simp: retried_def split: outcome.splits)
      with r0 show ?thesis by (simp add: retry_second)
    next
      case r1: True
      show ?thesis
      proof (cases "up 2 req")
        case (Rejected err)
        with r0 r1 show ?thesis by (simp add: retry_third_rejected)
      next
        case (Resolved r)
        show ?thesis
        proof (cases "ok r \<or> (400 \<le> status r \<and> status r < 500)")
          case True
          with r0 r1 Resolved show ?thesis by (simp add: retry_third)
        next
          case False
          with r0 r1 Resolved show ?thesis by (simp add: retry_exhausted)
        qed
      qed
    qed
  qed
  have first: "take 2 (snd ?run) = [Fetch req, Sleep (1000 * 2 ^ 0)]" if "retried (up 0 req)"
  proof -
    have "snd ?run \<noteq> [Fetch req]"
    proof (cases "retried (up 1 req)")
      case False
      then obtain r where "up 1 req = Resolved r" "ok r \<or> (400 \<le> status r \<and> status r < 500)"
        by (auto simp: retried_def split: outcome.splits)
      with that show ?thesis by (simp add: retry_second)
    next
      case r1: True
      show ?thesis
      proof (cases "up 2 req")
        case (Rejected err)
        with that r1 show ?thesis by (simp add: retry_third_rejected)
      next
        case (Resolved r)
        show ?thesis
        proof (cases "ok r \<or> (400 \<le> status r \<and> status r < 500)")
          case True
          with that r1 Resolved show ?thesis by (simp add: retry_third)
        next
          case False
          with that r1 Resolved show ?thesis by (simp add: retry_exhausted)
        qed
      qed
    qed
    with shape show ?thesis by auto
  qed
  have second: "take 4 (snd ?run) = [Fetch req, Sleep (1000 * 2 ^ 0), Fetch req, Sleep (1000 * 2 ^ 1)]"
    if "retried (up 0 req)" "retried (up 1 req)"
  proof (cases "up 2 req")
    case (Rejected err)
    with that show ?thesis by (simp add: retry_third_rejected)
  next
    case (Resolved r)
    show ?thesis
    proof (cases "ok r \<or> (400 \<le> status r \<and> status r < 500)")
      case True
      with that Resolved show ?thesis by (simp add: retry_third)
    next
      case False
      with that Resolved show ?thesis by (simp add: retry_exhausted)
    qed
  qed
  have waits: "sleeps (snd ?run) \<in> {[], [1000], [1000, 2000]}"
    using shape by auto
  have last: "?run = (Rejected e, [Fetch req, Sleep 1000, Fetch req, Sleep 2000, Fetch req])"
    if "retried (up 0 req)" "retried (up 1 req)" "up 2 req = Rejected e"
    using that by (simp add: retry_third_rejected)
  show ?thesis
    using loop_retry [of i retries up trace req delay] first second waits last by blast
qed

theorem backoff_delays_witness:
  "fetchWithRetry (\<lambda>n req. if n = 0 then answer 503 ''busy'' None else Rejected (Error ''network down''))
      (score_request [] []) 3 1000 [] =
     (Rejected (Error ''network down''),
      [Fetch (score_request [] []), Sleep 1000, Fetch (score_request [] []), Sleep 2000,
       Fetch (score_request [] [])])"
  using backoff_delays [where up = "\<lambda>n req. if n = 0 then answer 503 ''busy'' None else Rejected (Error ''network down'')"
      and req = "score_request [] []" and e = "Error ''network down''" and i = 0 and retries = 3
      and trace = "[]" and delay = 1000]
  by (simp add: retried_def answer_def ok_def)

section \<open>From the event to the upstream call\<close>

text \<open>
  On an event that reaches the upstream call, a score handler is the catch block applied
  to the outcome of the call and its translation.
\<close>

lemma handler_part_002_run:
  assumes "reaches_upstream prompt_part_002 numstr event prompt"
  shows "handler_part_002 numstr apiKey up event =
         catch_error
           (case fetchWithRetry up
                   (score_request (apiUrl ''gemini-2.5-flash-preview-09-2025'' apiKey) prompt)
                   3 1000 [] of
              (Rejected e, trace) \<Rightarrow> (Inl e, trace)
            | (Resolved response, trace) \<Rightarrow> (respond_checked response, trace))"
  using assms
  by (auto simp: reaches_upstream_def handler_part_002_def split: option.splits sum.splits)

lemma handler_part_001_run:
  assumes "reaches_upstream prompt_part_001 numstr event prompt"
  shows "handler_part_001 numstr apiKey up event =
         catch_error
           (case fetchWithRetry up
                   (score_request (apiUrl ''gemini-2.5-flash-preview-09-2025'' apiKey) prompt)
                   3 1000 [] of
              (Rejected e, trace) \<Rightarrow> (Inl e, trace)
            | (Resolved response, trace) \<Rightarrow> (respond_checked response, trace))"
  using assms
  by (auto simp: reaches_upstream_def handler_part_001_def split: option.splits sum.splits)

lemma handler_get_n_score_run:
  assumes "reaches_upstream prompt_get_n_score numstr event prompt"
  shows "handler_get_n_score numstr apiKey up event =
         catch_error
           (case fetch up (score_request (apiUrl ''gemini-1.5-flash-latest'' apiKey) prompt) [] of
              (Rejected e, trace) \<Rightarrow> (Inl e, trace)
            | (Resolved response, trace) \<Rightarrow> (respond_get_n_score response, trace))"
  using assms
  by (auto simp: reaches_upstream_def handler_get_n_score_def split: option.splits sum.splits)

lemma retry_handler_run:
  assumes "(handler, prompt_of) = (handler_part_001, prompt_part_001) \<or>
           (handler, prompt_of) = (handler_part_002, prompt_part_002)"
    and "reaches_upstream prompt_of numstr event prompt"
    and "fetchWithRetry up
           (score_request (apiUrl ''gemini-2.5-flash-preview-09-2025'' apiKey) prompt)
           3 1000 [] = (out, trace)"
  shows "handler numstr apiKey up event =
         (case out of
            Rejected e \<Rightarrow> internal_error e
          | Resolved response \<Rightarrow>
              (case respond_checked response of Inl e \<Rightarrow> internal_error e | Inr reply \<Rightarrow> reply),
          trace)"
  using assms
  by (auto simp: handler_part_001_run handler_part_002_run catch_error_def
      split: outcome.splits sum.splits)

text \<open>The templates render on totals whose fields are numbers.\<close>

lemma fixed_field_plain:
  assumes "plain_number (field k obj)"
  shows "fixed_field numstr obj k f = Inr (fixed numstr k f obj)"
  using assms
  by (auto simp: plain_number_def field_def fixed_field_def fixed_def number_of_def bind_err_def
      split: sum.splits jsval.splits)

lemma prompt_part_002_renders:
  assumes "valid_totals totalNutrition"
    and "join_call numstr foodNames '', '' = Inr names"
  shows "prompt_part_002 numstr totalNutrition foodNames =
         Inr (prompt_opening_part_002 @
              (if names = [] then ''a food item'' else names) @
              ''.\<newline>\<newline>The meal's total nutritional breakdown is:\<newline>'' @
              ''- Total Weight: '' @ fixed numstr ''totalWeight'' 0 totalNutrition @ ''g\<newline>'' @
              ''- Calories: '' @ fixed numstr ''calories'' 0 totalNutrition @ ''\<newline>'' @
              ''- Protein: '' @ fixed numstr ''protein'' 1 totalNutrition @ ''g\<newline>'' @
              ''- Fat: '' @ fixed numstr ''fat'' 1 totalNutrition @ ''g\<newline>'' @
              ''- Carbohydrates: '' @ fixed numstr ''carbs'' 1 totalNutrition @ ''g\<newline>'' @
              ''- Sugar: '' @ fixed numstr ''sugar'' 1 totalNutrition @ ''g\<newline>'' @
              ''- Fiber: '' @ fixed numstr ''fiber'' 1 totalNutrition @ ''g\<newline>'' @
              ''- Sodium: '' @ fixed numstr ''sodium'' 0 totalNutrition @ ''mg'' @
              prompt_closing_part_002)"
  using assms
  unfolding prompt_part_002_def valid_totals_def
  by (simp add: fixed_field_plain bind_err_def del: append.simps)

lemma prompt_get_n_score_renders:
  assumes "valid_totals totalNutrition"
    and "join_call numstr foodNames '', '' = Inr names"
  shows "prompt_get_n_score numstr totalNutrition foodNames =
         Inr (prompt_opening_get_n_score @
              (if names = [] then ''a food item'' else names) @
              ''.\<newline>\<newline>The meal's total nutritional breakdown is:\<newline>'' @
              ''- Calories: '' @ fixed numstr ''calories'' 0 totalNutrition @ ''\<newline>'' @
              ''- Protein: '' @ fixed numstr ''protein'' 1 totalNutrition @ ''g\<newline>'' @
              ''- Fat: '' @ fixed numstr ''fat'' 1 totalNutrition @ ''g\<newline>'' @
              ''- Carbohydrates: '' @ fixed numstr ''carbs'' 1 totalNutrition @ ''g\<newline>'' @
              ''- Sugar: '' @ fixed numstr ''sugar'' 1 totalNutrition @ ''g\<newline>'' @
              ''- Fiber: '' @ fixed numstr ''fiber'' 1 totalNutrition @ ''g\<newline>'' @
              ''- Sodium: '' @ fixed numstr ''sodium'' 0 totalNutrition @ ''mg'' @
              prompt_closing_get_n_score)"
  using assms
  unfolding prompt_get_n_score_def valid_totals_def
  by (simp add: fixed_field_plain bind_err_def del: append.simps)

text \<open>An array of strings is joined without an error.\<close>

lemma collect_strings: "collect (map (element_string numstr) (map JStr names)) = Inr names"
  by (induction names) simp_all

lemma join_strings: "join_call numstr (JArr (map JStr names)) sep = Inr (intersperse sep names)"
  using collect_strings [of numstr names] by simp

lemma sample_totals_valid: "valid_totals sample_totals"
  by (simp add: valid_totals_def sample_totals_def field_def plain_number_def)

lemma sample_names_join: "join_call numstr (JArr sample_names) '', '' = Inr ''apple, rice''"
  by (simp add: sample_names_def)

lemma sample_event_reaches:
  "\<exists>prompt. reaches_upstream prompt_part_002 numstr sample_event prompt"
  using prompt_part_002_renders [OF sample_totals_valid sample_names_join, of numstr]
  by (simp add: reaches_upstream_def sample_event_def destructure_def bind_err_def
      sample_totals_def del: append.simps)

lemma sample_event_reaches_part_001:
  "\<exists>prompt. reaches_upstream prompt_part_001 numstr sample_event prompt"
  using prompt_get_n_score_renders [OF sample_totals_valid sample_names_join, of numstr]
  by (simp add: reaches_upstream_def sample_event_def destructure_def bind_err_def
      sample_totals_def prompt_part_001_def del: append.simps)

lemma sample_run:
  assumes "(handler, prompt_of) = (handler_part_001, prompt_part_001) \<or>
           (handler, prompt_of) = (handler_part_002, prompt_part_002)"
    and "ok r \<or> (400 \<le> status r \<and> status r < 500)"
  shows "fst (handler numstr apiKey (\<lambda>n req. Resolved r) sample_event) =
           (case respond_checked r of Inl e \<Rightarrow> internal_error e | Inr reply \<Rightarrow> reply) \<and>
         calls (snd (handler numstr apiKey (\<lambda>n req. Resolved r) sample_event)) = 1"
proof -
  obtain prompt where reach: "reaches_upstream prompt_of numstr sample_event prompt"
    using assms(1) sample_event_reaches sample_event_reaches_part_001 by blast
  let ?req = "score_request (apiUrl ''gemini-2.5-flash-preview-09-2025'' apiKey) prompt"
  have "fetchWithRetry (\<lambda>n req. Resolved r) ?req 3 1000 [] = (Resolved r, [Fetch ?req])"
    using assms(2) by (simp add: retry_first)
  from retry_handler_run [OF assms(1) reach this] show ?thesis by simp
qed

section \<open>Retries as the handler sees them\<close>

text \<open>
  C1. In the score handlers with the retry helper (part_001 and part_002): when the
  first \<open>k\<close> calls are retried and call number \<open>k\<close> (counting from 0, within the three
  rounds of the loop) is answered with a status from 400 to 499, \<open>fetchWithRetry\<close> returns
  that response and the trace holds \<open>k + 1\<close> calls, so none is made after it; for
  \<open>k = 0\<close> that is exactly one call. The handler turns the response into status 500 with
  the message "API error <status>: <text>".
\<close>

theorem client_error_not_retried:
  assumes "(handler, prompt_of) = (handler_part_001, prompt_part_001) \<or>
           (handler, prompt_of) = (handler_part_002, prompt_part_002)"
    and "reaches_upstream prompt_of numstr event prompt"
    and "req = score_request (apiUrl ''gemini-2.5-flash-preview-09-2025'' apiKey) prompt"
    and "k < 3" and "\<forall>j<k. retried (up j req)"
    and "up k req = Resolved response"
    and "400 \<le> status response" and "status response < 500"
  shows "\<exists>trace. fetchWithRetry up req 3 1000 [] = (Resolved response, trace) \<and>
           calls trace = k + 1 \<and>
           handler numstr apiKey up event =
             (\<lparr>statusCode = 500, headers = [],
               reply_body = ErrorJson (Error (''API error '' @ show_nat (status response) @ '': '' @
                                              resp_text response))\<rparr>, trace)"
proof -
  have client: "ok response \<or> (400 \<le> status response \<and> status response < 500)"
    using assms by simp
  have not_ok: "\<not> ok response"
    using assms by (simp add: ok_def)
  from \<open>k < 3\<close> have "k = 0 \<or> k = 1 \<or> k = 2" by arith
  then obtain trace where run: "fetchWithRetry up req 3 1000 [] = (Resolved response, trace)"
    and count: "calls trace = k + 1"
  proof (elim disjE)
    assume k: "k = 0"
    with assms client have "fetchWithRetry up req 3 1000 [] = (Resolved response, [Fetch req])"
      by (simp add: retry_first)
    with k that show thesis by simp
  next
    assume k: "k = 1"
    with assms client
    have "fetchWithRetry up req 3 1000 [] = (Resolved response, [Fetch req, Sleep 1000, Fetch req])"
      by (simp add: retry_second)
    with k that show thesis by simp
  next
    assume k: "k = 2"
    with assms have "retried (up 0 req)" and "retried (up 1 req)" by simp_all
    with k assms client
    have "fetchWithRetry up req 3 1000 [] =
          (Resolved response, [Fetch req, Sleep 1000, Fetch req, Sleep (1000 * 2), Fetch req])"
      by (simp add: retry_third)
    with k that show thesis by simp
  qed
  have "handler numstr apiKey up event =
          (\<lparr>statusCode = 500, headers = [],
            reply_body = ErrorJson (Error (''API error '' @ show_nat (status response) @ '': '' @
                                           resp_text response))\<rparr>, trace)"
    using retry_handler_run [OF assms(1) assms(2) run [unfolded assms(3)]] not_ok
    by (simp add: respond_checked_def api_error_def internal_error_def)
  with run count show ?thesis by blast
qed

theorem client_error_not_retried_witness:
  "calls (snd (handler_part_002 (\<lambda>r. []) None (\<lambda>n req. answer 400 ''bad request'' None)
                 sample_event)) = 1 \<and>
   statusCode (fst (handler_part_002 (\<lambda>r. []) None (\<lambda>n req. answer 400 ''bad request'' None)
                 sample_event)) = 500"
proof -
  obtain prompt where reach: "reaches_upstream prompt_part_002 (\<lambda>r. []) sample_event prompt"
    using sample_event_reaches by blast
  from client_error_not_retried [where handler = handler_part_002 and prompt_of = prompt_part_002
      and numstr = "\<lambda>r. []" and event = sample_event and prompt = prompt and apiKey = None
      and k = 0 and up = "\<lambda>n req. answer 400 ''bad request'' None"
      and response = "\<lparr>status = 400, resp_text = ''bad request'', resp_json = None\<rparr>",
      OF _ reach refl]
  show ?thesis by (auto simp: answer_def)
qed

text \<open>
  When each of the three rounds of the loop is answered with a status of 500 or more,
  the loop ends without returning, \<open>fetchWithRetry\<close> makes a fourth call without a wait
  before it, and the outcome of that call is what the handler works with: a rejection
  gives status 500 with its message, a response goes through the usual translation.
\<close>

lemma server_errors_exhaust_the_loop:
  assumes "(handler, prompt_of) = (handler_part_001, prompt_part_001) \<or>
           (handler, prompt_of) = (handler_part_002, prompt_part_002)"
    and "reaches_upstream prompt_of numstr event prompt"
    and "req = score_request (apiUrl ''gemini-2.5-flash-preview-09-2025'' apiKey) prompt"
    and "\<forall>j<3. \<exists>r. up j req = Resolved r \<and> 500 \<le> status r"
  shows "fetchWithRetry up req 3 1000 [] =
           (up 3 req, [Fetch req, Sleep 1000, Fetch req, Sleep 2000, Fetch req, Fetch req]) \<and>
         handler numstr apiKey up event =
           (case up 3 req of
              Rejected e \<Rightarrow> \<lparr>statusCode = 500, headers = [], reply_body = ErrorJson e\<rparr>
            | Resolved response \<Rightarrow>
                (case respond_checked response of
                   Inl e \<Rightarrow> \<lparr>statusCode = 500, headers = [], reply_body = ErrorJson e\<rparr>
                 | Inr reply \<Rightarrow> reply),
            [Fetch req, Sleep 1000, Fetch req, Sleep 2000, Fetch req, Fetch req])"
proof -
  have server: "retried (up j req)" if "j < 3" for j
    using assms(4) that by (auto simp: retried_def ok_def)
  have "\<exists>r. up 2 req = Resolved r \<and> 500 \<le> status r"
    using assms(4) by simp
  then obtain r where r: "up 2 req = Resolved r" "500 \<le> status r"
    by blast
  have run: "fetchWithRetry up req 3 1000 [] =
               (up 3 req, [Fetch req, Sleep 1000, Fetch req, Sleep 2000, Fetch req, Fetch req])"
    using retry_exhausted [of up req r 1000] server [of 0] server [of 1] r
    by (simp add: ok_def)
  show ?thesis
    using run retry_handler_run [OF assms(1) assms(2) run [unfolded assms(3)]]
    by (simp add: internal_error_def assms(3) split: outcome.splits sum.splits)
qed

lemma server_errors_exhaust_the_loop_sample:
  "calls (snd (handler_part_002 (\<lambda>r. []) None
        (\<lambda>n req. if n < 3 then answer 503 ''busy'' None
                   else answer 200 [] (Some (envelope (JStr sample_text))))
        sample_event)) = 4 \<and>
   fst (handler_part_002 (\<lambda>r. []) None
        (\<lambda>n req. if n < 3 then answer 503 ''busy'' None
                   else answer 200 [] (Some (envelope (JStr sample_text))))
        sample_event) =
     \<lparr>statusCode = 200, headers = [(''Content-Type'', ''application/json'')],
      reply_body = Verbatim (JStr sample_text)\<rparr>"
proof -
  obtain prompt where reach: "reaches_upstream prompt_part_002 (\<lambda>r. []) sample_event prompt"
    using sample_event_reaches by blast
  from server_errors_exhaust_the_loop [where handler = handler_part_002
      and prompt_of = prompt_part_002 and numstr = "\<lambda>r. []" and event = sample_event
      and prompt = prompt and apiKey = None
      and up = "\<lambda>n req. if n < 3 then answer 503 ''busy'' None
                   else answer 200 [] (Some (envelope (JStr sample_text)))",
      OF _ reach refl]
  show ?thesis
    by (simp add: answer_def respond_checked_def ok_def envelope_def invalid_structure_def
        generatedJson_def bind_err_def success_def json_headers_def sample_text_def)
qed

text \<open>
  C2. The claim counts status 429 among the statuses that are retried, as the comment of
  part_001 line 82 (part_002 line 86) does: "Retry on server errors (5xx) or rate limits
  (429)". In the code the test for the range 400 to 499 comes first (line 79, line 83)
  and returns a 429 at once. An upstream service that answers 429 to every call is
  therefore called once: \<open>fetchWithRetry\<close> returns the first response with one call in the
  trace, where the claim has three retried rounds and a fourth call, and the handler
  makes that one call and no other.
\<close>

theorem rate_limit_not_retried:
  "fetchWithRetry (\<lambda>n req. answer 429 ''slow down'' None) (score_request [] []) 3 1000 [] =
     (answer 429 ''slow down'' None, [Fetch (score_request [] [])]) \<and>
   calls (snd (handler_part_002 (\<lambda>r. []) None (\<lambda>n req. answer 429 ''slow down'' None)
                 sample_event)) = 1"
proof -
  obtain prompt where reach: "reaches_upstream prompt_part_002 (\<lambda>r. []) sample_event prompt"
    using sample_event_reaches by blast
  have run: "fetchWithRetry (\<lambda>n req. answer 429 ''slow down'' None) req 3 1000 [] =
        (answer 429 ''slow down'' None, [Fetch req])" for req
    by (simp add: retry_first answer_def)
  from retry_handler_run [where handler = handler_part_002 and prompt_of = prompt_part_002,
      OF _ reach run [unfolded answer_def]]
  have "calls (snd (handler_part_002 (\<lambda>r. []) None (\<lambda>n req. answer 429 ''slow down'' None)
                 sample_event)) = 1"
    by (simp add: answer_def)
  with run show ?thesis by simp
qed

section \<open>The translation of the upstream response\<close>

text \<open>
  A falsy value has none of the properties of the path, so a path that ends in a truthy
  value passes every step of the check.
\<close>

lemma falsy_get_prop:
  assumes "falsy v" and "get_prop k v = Inr x"
  shows "x = JUndefined"
  using assms by (cases v) auto

lemma falsy_index0:
  assumes "falsy v" and "index0 v = Inr x"
  shows "x = JUndefined"
  using assms by (cases v) auto

lemma guard_passes:
  assumes "generatedJson result = Inr generated" and "\<not> falsy generated"
  shows "invalid_structure result = Inr False"
proof -
  from assms(1) obtain candidates candidate content parts part where
    steps: "get_prop ''candidates'' result = Inr candidates"
      "index0 candidates = Inr candidate"
      "get_prop ''content'' candidate = Inr content"
      "get_prop ''parts'' content = Inr parts"
      "index0 parts = Inr part"
      "get_prop ''text'' part = Inr generated"
    by (auto simp: generatedJson_def bind_err_def split: sum.splits)
  have "\<not> falsy candidates"
    using steps(2,3) falsy_index0 [of candidates candidate] by auto
  moreover have "\<not> falsy candidate"
    using steps(3,4) falsy_get_prop [of candidate "''content''" content] by auto
  moreover have "\<not> falsy part"
    using steps(6) assms(2) falsy_get_prop [of part "''text''" generated] by auto
  moreover have "\<not> falsy content"
    using steps(4,5) falsy_get_prop [of content "''parts''" parts] by auto
  ultimately show ?thesis
    using steps assms(2) by (simp add: invalid_structure_def bind_err_def)
qed

lemma guard_reports:
  assumes "ok response" and "resp_json response = Some result"
    and "invalid_structure result = Inr True"
  shows "respond_checked response = Inl (Error ''Invalid API response structure.'')"
  using assms by (simp add: respond_checked_def bind_err_def)

text \<open>
  C5, as amended. In the score handlers with the retry helper, when the response that
  \<open>fetchWithRetry\<close> returns is ok and its envelope has a non-empty text at
  \<open>candidates[0].content.parts[0].text\<close>, the reply has status 200, the header
  Content-Type: application/json and that text, unchanged, as its body.
\<close>

theorem generated_text_returned:
  assumes "(handler, prompt_of) = (handler_part_001, prompt_part_001) \<or>
           (handler, prompt_of) = (handler_part_002, prompt_part_002)"
    and "reaches_upstream prompt_of numstr event prompt"
    and "fetchWithRetry up
           (score_request (apiUrl ''gemini-2.5-flash-preview-09-2025'' apiKey) prompt)
           3 1000 [] = (Resolved response, trace)"
    and "ok response" and "resp_json response = Some result"
    and "generatedJson result = Inr (JStr generated)" and "generated \<noteq> []"
  shows "handler numstr apiKey up event =
           (\<lparr>statusCode = 200, headers = [(''Content-Type'', ''application/json'')],
             reply_body = Verbatim (JStr generated)\<rparr>, trace)"
proof -
  have "invalid_structure result = Inr False"
    using guard_passes [OF assms(6)] assms(7) by simp
  with assms(4-6) have "respond_checked response = Inr (success (JStr generated))"
    by (simp add: respond_checked_def bind_err_def)
  with retry_handler_run [OF assms(1-3)] show ?thesis
    by (simp add: success_def json_headers_def)
qed

theorem generated_text_returned_witness:
  "handler_part_002 (\<lambda>r. []) None
      (\<lambda>n req. if n = 0 then answer 503 ''busy'' None
                 else answer 200 [] (Some (envelope (JStr sample_text))))
      sample_event =
     (\<lparr>statusCode = 200, headers = [(''Content-Type'', ''application/json'')],
       reply_body = Verbatim (JStr sample_text)\<rparr>,
      snd (handler_part_002 (\<lambda>r. []) None
      (\<lambda>n req. if n = 0 then answer 503 ''busy'' None
                 else answer 200 [] (Some (envelope (JStr sample_text))))
      sample_event)) \<and>
   sleeps (snd (handler_part_002 (\<lambda>r. []) None
      (\<lambda>n req. if n = 0 then answer 503 ''busy'' None
                 else answer 200 [] (Some (envelope (JStr sample_text))))
      sample_event)) = [1000]"
proof -
  let ?up = "\<lambda>(n::nat) (req::request). if n = 0 then answer 503 ''busy'' None
                 else answer 200 [] (Some (envelope (JStr sample_text)))"
  obtain prompt where reach: "reaches_upstream prompt_part_002 (\<lambda>r. []) sample_event prompt"
    using sample_event_reaches by blast
  let ?req = "score_request (apiUrl ''gemini-2.5-flash-preview-09-2025'' None) prompt"
  have run: "fetchWithRetry ?up ?req 3 1000 [] =
      (Resolved \<lparr>status = 200, resp_text = [], resp_json = Some (envelope (JStr sample_text))\<rparr>,
       [Fetch ?req, Sleep 1000, Fetch ?req])"
    by (rule retry_second) (simp_all add: retried_def answer_def ok_def)
  from generated_text_returned [where handler = handler_part_002 and prompt_of = prompt_part_002
      and generated = sample_text, OF _ reach run]
  show ?thesis
    by (simp add: ok_def envelope_def generatedJson_def bind_err_def sample_text_def)
qed

text \<open>
  The claim as written asks only that the path be there. An empty text is there and is
  falsy: the check of the envelope refuses it, and the reply has status 500.
\<close>

theorem empty_text_rejected:
  "fst (handler_part_001 (\<lambda>r. []) None (\<lambda>n req. answer 200 [] (Some (envelope (JStr []))))
          sample_event) =
     \<lparr>statusCode = 500, headers = [],
       reply_body = ErrorJson (Error ''Invalid API response structure.'')\<rparr> \<and>
   fst (handler_part_002 (\<lambda>r. []) None (\<lambda>n req. answer 200 [] (Some (envelope (JStr []))))
          sample_event) =
     \<lparr>statusCode = 500, headers = [],
       reply_body = ErrorJson (Error ''Invalid API response structure.'')\<rparr>"
proof -
  let ?r = "\<lparr>status = 200, resp_text = [], resp_json = Some (envelope (JStr []))\<rparr>"
  have "invalid_structure (envelope (JStr [])) = Inr True"
    by (simp add: invalid_structure_def envelope_def bind_err_def)
  then have "respond_checked ?r = Inl (Error ''Invalid API response structure.'')"
    by (simp add: guard_reports ok_def)
  with sample_run [where handler = handler_part_001 and prompt_of = prompt_part_001 and r = ?r]
    sample_run [where handler = handler_part_002 and prompt_of = prompt_part_002 and r = ?r]
  show ?thesis
    by (simp add: answer_def ok_def internal_error_def)
qed

text \<open>
  netlify/functions/get-n-score.js has no check of the envelope and returns whatever the
  path holds, an empty text included.
\<close>

lemma get_n_score_returns_text:
  assumes "reaches_upstream prompt_get_n_score numstr event prompt"
    and "up 0 (score_request (apiUrl ''gemini-1.5-flash-latest'' apiKey) prompt) = Resolved response"
    and "ok response" and "resp_json response = Some result"
    and "generatedJson result = Inr generated"
  shows "handler_get_n_score numstr apiKey up event =
           (\<lparr>statusCode = 200, headers = [(''Content-Type'', ''application/json'')],
             reply_body = Verbatim generated\<rparr>,
            [Fetch (score_request (apiUrl ''gemini-1.5-flash-latest'' apiKey) prompt)])"
  using assms
  by (simp add: handler_get_n_score_run fetch_def catch_error_def respond_get_n_score_def
      bind_err_def success_def json_headers_def)

text \<open>
  C4. The check of the envelope reads \<open>content.parts[0]\<close> without a test of
  \<open>content.parts\<close>. On an envelope whose \<open>content\<close> has no \<open>parts\<close> the read itself
  throws a TypeError, so the reply has status 500 with the TypeError's message, not the
  message "Invalid API response structure." that the check gives for every other missing
  step.
\<close>

theorem missing_parts_is_a_type_error:
  "invalid_structure (JObj [(''candidates'', JArr [JObj [(''content'', JObj [])]])]) = Inl TypeError \<and>
   fst (handler_part_001 (\<lambda>r. []) None
          (\<lambda>n req. answer 200 [] (Some (JObj [(''candidates'', JArr [JObj [(''content'', JObj [])]])])))
          sample_event) =
     \<lparr>statusCode = 500, headers = [], reply_body = ErrorJson TypeError\<rparr> \<and>
   fst (handler_part_002 (\<lambda>r. []) None
          (\<lambda>n req. answer 200 [] (Some (JObj [(''candidates'', JArr [JObj [(''content'', JObj [])]])])))
          sample_event) =
     \<lparr>statusCode = 500, headers = [], reply_body = ErrorJson TypeError\<rparr> \<and>
   ErrorJson TypeError \<noteq> ErrorJson (Error ''Invalid API response structure.'')"
proof -
  let ?r = "\<lparr>status = 200, resp_text = [],
              resp_json = Some (JObj [(''candidates'', JArr [JObj [(''content'', JObj [])]])])\<rparr>"
  have bad: "invalid_structure (JObj [(''candidates'', JArr [JObj [(''content'', JObj [])]])]) =
             Inl TypeError"
    by (simp add: invalid_structure_def bind_err_def)
  then have "respond_checked ?r = Inl TypeError"
    by (simp add: respond_checked_def ok_def bind_err_def)
  with sample_run [where handler = handler_part_001 and prompt_of = prompt_part_001 and r = ?r]
    sample_run [where handler = handler_part_002 and prompt_of = prompt_part_002 and r = ?r] bad
  show ?thesis
    by (simp add: answer_def ok_def internal_error_def)
qed

section \<open>The recognition handler\<close>

text \<open>
  C6, as amended. A recognition request whose body has no supportedFoods array (the
  field is absent or is not an array, or the body is null) gets status 500 with the
  message of a TypeError, and the upstream service is not called: the handler has no
  validation of its own, the failure comes from joining the names.
\<close>

theorem recognition_without_foods:
  assumes "httpMethod event = ''POST''" and "body event = Some b"
    and "\<forall>names. field ''supportedFoods'' b \<noteq> JArr names"
  shows "handler_part_000 numstr apiKey up event =
           (\<lparr>statusCode = 500, headers = [], reply_body = ErrorJson TypeError\<rparr>, [])"
proof (cases "destructure ''base64ImageData'' ''supportedFoods'' b")
  case (Inl e)
  then have "e = TypeError"
    by (cases b) (auto simp: destructure_def bind_err_def)
  with Inl assms show ?thesis
    by (simp add: handler_part_000_def catch_error_def internal_error_def)
next
  case (Inr pair)
  then obtain image foods where pair: "pair = (image, foods)"
    and foods: "get_prop ''supportedFoods'' b = Inr foods"
    by (auto simp: destructure_def bind_err_def split: sum.splits)
  with assms(3) have "\<forall>names. foods \<noteq> JArr names"
    by (simp add: field_def)
  then have "prompt_part_000 numstr foods = Inl TypeError"
    by (cases foods) (simp_all add: prompt_part_000_def bind_err_def)
  with Inr pair assms show ?thesis
    by (simp add: handler_part_000_def catch_error_def internal_error_def)
qed

theorem recognition_without_foods_witness:
  "handler_part_000 (\<lambda>r. []) None (\<lambda>n req. answer 200 [] (Some (JArr [])))
      \<lparr>httpMethod = ''POST'', body = Some (JObj [(''base64ImageData'', JStr ''aGVsbG8='')])\<rparr> =
     (\<lparr>statusCode = 500, headers = [], reply_body = ErrorJson TypeError\<rparr>, [])"
  using recognition_without_foods [where event =
      "\<lparr>httpMethod = ''POST'', body = Some (JObj [(''base64ImageData'', JStr ''aGVsbG8='')])\<rparr>"
      and b = "JObj [(''base64ImageData'', JStr ''aGVsbG8='')]"
      and numstr = "\<lambda>r. []" and apiKey = None and up = "\<lambda>n req. answer 200 [] (Some (JArr []))"]
  by (simp add: field_def)

text \<open>
  The claim as written expects a client-error status that differs from the status of an
  upstream failure. The status is 500 in both cases.
\<close>

theorem recognition_failures_share_status:
  "handler_part_000 (\<lambda>r. []) None (\<lambda>n req. answer 200 [] (Some (JArr [])))
      \<lparr>httpMethod = ''POST'',
       body = Some (JObj [(''base64ImageData'', JStr ''aGVsbG8='')])\<rparr> =
     (\<lparr>statusCode = 500, headers = [], reply_body = ErrorJson TypeError\<rparr>, []) \<and>
   fst (handler_part_000 (\<lambda>r. []) None (\<lambda>n req. answer 503 ''busy'' None)
      \<lparr>httpMethod = ''POST'',
       body = Some (JObj [(''base64ImageData'', JStr ''aGVsbG8=''),
                          (''supportedFoods'', JArr [JStr ''apple'', JStr ''banana''])])\<rparr>) =
     \<lparr>statusCode = 500, headers = [], reply_body = ErrorJson (Error ''API error 503: busy'')\<rparr>"
  by (simp add: handler_part_000_def catch_error_def internal_error_def destructure_def
      bind_err_def prompt_part_000_def fetch_def answer_def respond_part_000_def ok_def
      api_error_def digit_char_def del: append.simps)

section \<open>The precision of the numbers in the prompt\<close>

declare show_nat.simps [simp del]

lemma digit_char_is_digit:
  assumes "d < 10"
  shows "is_digit (digit_char d)"
  using assms by (simp add: is_digit_def digit_char_def nth_mem del: set_simps)

lemma show_nat_digits: "list_all is_digit (show_nat n)"
proof (induction n rule: show_nat.induct)
  case (1 n)
  show ?case
  proof (cases "n < 10")
    case True
    then show ?thesis by (subst show_nat.simps) (simp add: digit_char_is_digit)
  next
    case False
    with 1 show ?thesis by (subst show_nat.simps) (simp add: digit_char_is_digit)
  qed
qed

lemma show_nat_not_empty: "show_nat n \<noteq> []"
  by (subst show_nat.simps) simp

lemma point_is_no_digit: "\<not> is_digit (CHR ''.'')"
  by (simp add: is_digit_def)

lemma minus_is_no_digit: "\<not> is_digit (CHR ''-'')"
  by (simp add: is_digit_def)

lemma zero_is_digit: "is_digit (CHR ''0'')"
  by (simp add: is_digit_def)

lemma decimal_places_digits:
  assumes "list_all is_digit whole" and "whole \<noteq> []" and "list_all is_digit fs"
    and "s = sign @ (if length fs = 0 then whole else whole @ ''.'' @ fs)"
    and "sign = [] \<or> sign = ''-''"
  shows "decimal_places (length fs) s"
proof -
  let ?u = "if length fs = 0 then whole else whole @ ''.'' @ fs"
  obtain c cs where whole: "whole = c # cs" using assms(2) by (cases whole) auto
  with assms(1) have c: "is_digit c" by simp
  then have "c \<noteq> CHR ''-''" using minus_is_no_digit by auto
  then have unsigned: "(case s of [] \<Rightarrow> [] | c # cs \<Rightarrow> if c = CHR ''-'' then cs else s) = ?u"
    using assms(4,5) whole by auto
  have all: "\<forall>d\<in>set whole. is_digit d"
    using assms(1) by (simp add: list_all_iff)
  have tw: "takeWhile is_digit ?u = whole"
    using all point_is_no_digit by (simp add: takeWhile_append2)
  have dw: "dropWhile is_digit ?u = (if length fs = 0 then [] else ''.'' @ fs)"
    using all point_is_no_digit by (simp add: dropWhile_append2)
  show ?thesis
    unfolding decimal_places_def unsigned Let_def tw dw
    using assms(2,3) by auto
qed

lemma toFixed_places:
  assumes "\<bar>x\<bar> < 10 ^ 21"
  shows "decimal_places f (toFixed numstr x f)"
proof -
  define n where "n = nat \<lfloor>\<bar>x\<bar> * 10 ^ f + 1 / 2\<rfloor>"
  define m where "m = (if f \<noteq> 0 \<and> length (show_nat n) \<le> f
                       then replicate (f + 1 - length (show_nat n)) (CHR ''0'') @ show_nat n
                       else show_nat n)"
  define sign where "sign = (if x < 0 then ''-'' else [])"
  have digits: "list_all is_digit m"
    using show_nat_digits [of n] zero_is_digit by (auto simp: m_def list_all_iff)
  have eq: "toFixed numstr x f =
            sign @ (if f \<noteq> 0 then take (length m - f) m @ ''.'' @ drop (length m - f) m else m)"
    using assms by (simp add: toFixed_def Let_def n_def m_def sign_def)
  show ?thesis
  proof (cases "f = 0")
    case True
    have "decimal_places (length ([]::string)) (toFixed numstr x f)"
    proof (rule decimal_places_digits [where whole = m and sign = sign])
      show "list_all is_digit m" by (rule digits)
      show "m \<noteq> []" using True show_nat_not_empty by (simp add: m_def)
      show "toFixed numstr x f = sign @ (if length ([]::string) = 0 then m else m @ ''.'' @ [])"
        using eq True by simp
    qed (simp_all add: sign_def)
    with True show ?thesis by simp
  next
    case False
    have long: "f < length m"
      using False by (auto simp: m_def)
    let ?whole = "take (length m - f) m" and ?fs = "drop (length m - f) m"
    have len: "length ?fs = f" using long by simp
    have "decimal_places (length ?fs) (toFixed numstr x f)"
    proof (rule decimal_places_digits [where whole = ?whole and sign = sign])
      show "list_all is_digit ?whole"
        using digits by (auto simp: list_all_iff dest: in_set_takeD)
      show "?whole \<noteq> []" using long by auto
      show "list_all is_digit ?fs"
        using digits by (auto simp: list_all_iff dest: in_set_dropD)
      show "toFixed numstr x f =
            sign @ (if length ?fs = 0 then ?whole else ?whole @ ''.'' @ ?fs)"
        using eq False len by simp
    qed (simp_all add: sign_def)
    with len show ?thesis by simp
  qed
qed

lemma fixed_places:
  assumes "plain_number (field k obj)"
  shows "decimal_places f (fixed numstr k f obj)"
  using assms
  by (auto simp: fixed_def plain_number_def number_of_def toFixed_places split: jsval.splits)

lemma sublist_skip:
  assumes "sublist xs ys"
  shows "sublist xs (ps @ ys)"
  using assms by (auto simp: sublist_def) (metis append.assoc)

lemma sublist_here3: "sublist (a @ b @ c) (a @ b @ c @ rest)"
  using sublist_append_rightI [of "a @ b @ c" rest] by simp

lemma sublist_here2: "sublist (a @ b) (a @ b @ rest)"
  using sublist_append_rightI [of "a @ b" rest] by simp

text \<open>
  C8, as amended. For totals whose eight fields are numbers of magnitude below 10^21 and
  an array of food names (strings), the prompt of every score handler is rendered and
  contains the names joined by a comma and a space (or the words "a food item" when the
  joined text is empty) and one line for each of calories and sodium, written by
  \<open>toFixed(0)\<close> with no decimal place, and for each of protein, fat, carbohydrates, sugar
  and fiber, written by \<open>toFixed(1)\<close> with exactly one. The prompt of part_002 has one more
  line, for the total weight, with no decimal place.
\<close>

theorem prompt_precision:
  assumes "valid_totals totalNutrition"
  shows "(\<exists>prompt.
       prompt_get_n_score numstr totalNutrition (JArr (map JStr names)) = Inr prompt \<and>
       prompt_part_001 numstr totalNutrition (JArr (map JStr names)) = Inr prompt \<and>
       sublist ((if intersperse '', '' names = [] then ''a food item''
                 else intersperse '', '' names) @
                ''.\<newline>\<newline>The meal's total nutritional breakdown is:\<newline>'') prompt \<and>
       sublist (''- Calories: '' @ fixed numstr ''calories'' 0 totalNutrition @ ''\<newline>'') prompt \<and>
       sublist (''- Protein: '' @ fixed numstr ''protein'' 1 totalNutrition @ ''g\<newline>'') prompt \<and>
       sublist (''- Fat: '' @ fixed numstr ''fat'' 1 totalNutrition @ ''g\<newline>'') prompt \<and>
       sublist (''- Carbohydrates: '' @ fixed numstr ''carbs'' 1 totalNutrition @ ''g\<newline>'') prompt \<and>
       sublist (''- Sugar: '' @ fixed numstr ''sugar'' 1 totalNutrition @ ''g\<newline>'') prompt \<and>
       sublist (''- Fiber: '' @ fixed numstr ''fiber'' 1 totalNutrition @ ''g\<newline>'') prompt \<and>
       sublist (''- Sodium: '' @ fixed numstr ''sodium'' 0 totalNutrition @ ''mg'') prompt) \<and>
     (\<exists>prompt.
       prompt_part_002 numstr totalNutrition (JArr (map JStr names)) = Inr prompt \<and>
       sublist ((if intersperse '', '' names = [] then ''a food item''
                 else intersperse '', '' names) @
                ''.\<newline>\<newline>The meal's total nutritional breakdown is:\<newline>'') prompt \<and>
       sublist (''- Total Weight: '' @ fixed numstr ''totalWeight'' 0 totalNutrition @ ''g\<newline>'') prompt \<and>
       sublist (''- Calories: '' @ fixed numstr ''calories'' 0 totalNutrition @ ''\<newline>'') prompt \<and>
       sublist (''- Protein: '' @ fixed numstr ''protein'' 1 totalNutrition @ ''g\<newline>'') prompt \<and>
       sublist (''- Fat: '' @ fixed numstr ''fat'' 1 totalNutrition @ ''g\<newline>'') prompt \<and>
       sublist (''- Carbohydrates: '' @ fixed numstr ''carbs'' 1 totalNutrition @ ''g\<newline>'') prompt \<and>
       sublist (''- Sugar: '' @ fixed numstr ''sugar'' 1 totalNutrition @ ''g\<newline>'') prompt \<and>
       sublist (''- Fiber: '' @ fixed numstr ''fiber'' 1 totalNutrition @ ''g\<newline>'') prompt \<and>
       sublist (''- Sodium: '' @ fixed numstr ''sodium'' 0 totalNutrition @ ''mg'') prompt) \<and>
     decimal_places 0 (fixed numstr ''totalWeight'' 0 totalNutrition) \<and>
     decimal_places 0 (fixed numstr ''calories'' 0 totalNutrition) \<and>
     decimal_places 1 (fixed numstr ''protein'' 1 totalNutrition) \<and>
     decimal_places 1 (fixed numstr ''fat'' 1 totalNutrition) \<and>
     decimal_places 1 (fixed numstr ''carbs'' 1 totalNutrition) \<and>
     decimal_places 1 (fixed numstr ''sugar'' 1 totalNutrition) \<and>
     decimal_places 1 (fixed numstr ''fiber'' 1 totalNutrition) \<and>
     decimal_places 0 (fixed numstr ''sodium'' 0 totalNutrition)"
proof -
  let ?names = "if intersperse '', '' names = [] then ''a food item''
                else intersperse '', '' names"
  let ?seven = "prompt_opening_get_n_score @ ?names @
              ''.\<newline>\<newline>The meal's total nutritional breakdown is:\<newline>'' @
              ''- Calories: '' @ fixed numstr ''calories'' 0 totalNutrition @ ''\<newline>'' @
              ''- Protein: '' @ fixed numstr ''protein'' 1 totalNutrition @ ''g\<newline>'' @
              ''- Fat: '' @ fixed numstr ''fat'' 1 totalNutrition @ ''g\<newline>'' @
              ''- Carbohydrates: '' @ fixed numstr ''carbs'' 1 totalNutrition @ ''g\<newline>'' @
              ''- Sugar: '' @ fixed numstr ''sugar'' 1 totalNutrition @ ''g\<newline>'' @
              ''- Fiber: '' @ fixed numstr ''fiber'' 1 totalNutrition @ ''g\<newline>'' @
              ''- Sodium: '' @ fixed numstr ''sodium'' 0 totalNutrition @ ''mg'' @
              prompt_closing_get_n_score"
  let ?eight = "prompt_opening_part_002 @ ?names @
              ''.\<newline>\<newline>The meal's total nutritional breakdown is:\<newline>'' @
              ''- Total Weight: '' @ fixed numstr ''totalWeight'' 0 totalNutrition @ ''g\<newline>'' @
              ''- Calories: '' @ fixed numstr ''calories'' 0 totalNutrition @ ''\<newline>'' @
              ''- Protein: '' @ fixed numstr ''protein'' 1 totalNutrition @ ''g\<newline>'' @
              ''- Fat: '' @ fixed numstr ''fat'' 1 totalNutrition @ ''g\<newline>'' @
              ''- Carbohydrates: '' @ fixed numstr ''carbs'' 1 totalNutrition @ ''g\<newline>'' @
              ''- Sugar: '' @ fixed numstr ''sugar'' 1 totalNutrition @ ''g\<newline>'' @
              ''- Fiber: '' @ fixed numstr ''fiber'' 1 totalNutrition @ ''g\<newline>'' @
              ''- Sodium: '' @ fixed numstr ''sodium'' 0 totalNutrition @ ''mg'' @
              prompt_closing_part_002"
  have seven: "prompt_get_n_score numstr totalNutrition (JArr (map JStr names)) = Inr ?seven"
    by (rule prompt_get_n_score_renders [OF assms join_strings])
  then have seven': "prompt_part_001 numstr totalNutrition (JArr (map JStr names)) = Inr ?seven"
    by (simp only: prompt_part_001_def)
  have eight: "prompt_part_002 numstr totalNutrition (JArr (map JStr names)) = Inr ?eight"
    by (rule prompt_part_002_renders [OF assms join_strings])
  have names7: "sublist (?names @
      ''.\<newline>\<newline>The meal's total nutritional breakdown is:\<newline>'') ?seven"
    by (rule sublist_skip) (rule sublist_here2)
  have calories7: "sublist (''- Calories: '' @ fixed numstr ''calories'' 0 totalNutrition @ ''\<newline>'') ?seven"
    by ((rule sublist_here3 | rule sublist_skip)+)
  have protein7: "sublist (''- Protein: '' @ fixed numstr ''protein'' 1 totalNutrition @ ''g\<newline>'') ?seven"
    by ((rule sublist_here3 | rule sublist_skip)+)
  have fat7: "sublist (''- Fat: '' @ fixed numstr ''fat'' 1 totalNutrition @ ''g\<newline>'') ?seven"
    by ((rule sublist_here3 | rule sublist_skip)+)
  have carbs7: "sublist (''- Carbohydrates: '' @ fixed numstr ''carbs'' 1 totalNutrition @ ''g\<newline>'') ?seven"
    by ((rule sublist_here3 | rule sublist_skip)+)
  have sugar7: "sublist (''- Sugar: '' @ fixed numstr ''sugar'' 1 totalNutrition @ ''g\<newline>'') ?seven"
    by ((rule sublist_here3 | rule sublist_skip)+)
  have fiber7: "sublist (''- Fiber: '' @ fixed numstr ''fiber'' 1 totalNutrition @ ''g\<newline>'') ?seven"
    by ((rule sublist_here3 | rule sublist_skip)+)
  have sodium7: "sublist (''- Sodium: '' @ fixed numstr ''sodium'' 0 totalNutrition @ ''mg'') ?seven"
    by ((rule sublist_here3 | rule sublist_skip)+)
  have names8: "sublist (?names @
      ''.\<newline>\<newline>The meal's total nutritional breakdown is:\<newline>'') ?eight"
    by (rule sublist_skip) (rule sublist_here2)
  have weight8: "sublist (''- Total Weight: '' @ fixed numstr ''totalWeight'' 0 totalNutrition @ ''g\<newline>'') ?eight"
    by ((rule sublist_here3 | rule sublist_skip)+)
  have calories8: "sublist (''- Calories: '' @ fixed numstr ''calories'' 0 totalNutrition @ ''\<newline>'') ?eight"
    by ((rule sublist_here3 | rule sublist_skip)+)
  have protein8: "sublist (''- Protein: '' @ fixed numstr ''protein'' 1 totalNutrition @ ''g\<newline>'') ?eight"
    by ((rule sublist_here3 | rule sublist_skip)+)
  have fat8: "sublist (''- Fat: '' @ fixed numstr ''fat'' 1 totalNutrition @ ''g\<newline>'') ?eight"
    by ((rule sublist_here3 | rule sublist_skip)+)
  have carbs8: "sublist (''- Carbohydrates: '' @ fixed numstr ''carbs'' 1 totalNutrition @ ''g\<newline>'') ?eight"
    by ((rule sublist_here3 | rule sublist_skip)+)
  have sugar8: "sublist (''- Sugar: '' @ fixed numstr ''sugar'' 1 totalNutrition @ ''g\<newline>'') ?eight"
    by ((rule sublist_here3 | rule sublist_skip)+)
  have fiber8: "sublist (''- Fiber: '' @ fixed numstr ''fiber'' 1 totalNutrition @ ''g\<newline>'') ?eight"
    by ((rule sublist_here3 | rule sublist_skip)+)
  have sodium8: "sublist (''- Sodium: '' @ fixed numstr ''sodium'' 0 totalNutrition @ ''mg'') ?eight"
    by ((rule sublist_here3 | rule sublist_skip)+)
  have places: "decimal_places 0 (fixed numstr ''totalWeight'' 0 totalNutrition)"
    "decimal_places 0 (fixed numstr ''calories'' 0 totalNutrition)"
    "decimal_places 1 (fixed numstr ''protein'' 1 totalNutrition)"
    "decimal_places 1 (fixed numstr ''fat'' 1 totalNutrition)"
    "decimal_places 1 (fixed numstr ''carbs'' 1 totalNutrition)"
    "decimal_places 1 (fixed numstr ''sugar'' 1 totalNutrition)"
    "decimal_places 1 (fixed numstr ''fiber'' 1 totalNutrition)"
    "decimal_places 0 (fixed numstr ''sodium'' 0 totalNutrition)"
    using assms by (simp_all add: valid_totals_def fixed_places)
  have first: "\<exists>prompt.
       prompt_get_n_score numstr totalNutrition (JArr (map JStr names)) = Inr prompt \<and>
       prompt_part_001 numstr totalNutrition (JArr (map JStr names)) = Inr prompt \<and>
       sublist (?names @ ''.\<newline>\<newline>The meal's total nutritional breakdown is:\<newline>'') prompt \<and>
       sublist (''- Calories: '' @ fixed numstr ''calories'' 0 totalNutrition @ ''\<newline>'') prompt \<and>
       sublist (''- Protein: '' @ fixed numstr ''protein'' 1 totalNutrition @ ''g\<newline>'') prompt \<and>
       sublist (''- Fat: '' @ fixed numstr ''fat'' 1 totalNutrition @ ''g\<newline>'') prompt \<and>
       sublist (''- Carbohydrates: '' @ fixed numstr ''carbs'' 1 totalNutrition @ ''g\<newline>'') prompt \<and>
       sublist (''- Sugar: '' @ fixed numstr ''sugar'' 1 totalNutrition @ ''g\<newline>'') prompt \<and>
       sublist (''- Fiber: '' @ fixed numstr ''fiber'' 1 totalNutrition @ ''g\<newline>'') prompt \<and>
       sublist (''- Sodium: '' @ fixed numstr ''sodium'' 0 totalNutrition @ ''mg'') prompt"
    using seven seven' names7 calories7 protein7 fat7 carbs7 sugar7 fiber7 sodium7 by blast
  have second: "\<exists>prompt.
       prompt_part_002 numstr totalNutrition (JArr (map JStr names)) = Inr prompt \<and>
       sublist (?names @ ''.\<newline>\<newline>The meal's total nutritional breakdown is:\<newline>'') prompt \<and>
       sublist (''- Total Weight: '' @ fixed numstr ''totalWeight'' 0 totalNutrition @ ''g\<newline>'') prompt \<and>
       sublist (''- Calories: '' @ fixed numstr ''calories'' 0 totalNutrition @ ''\<newline>'') prompt \<and>
       sublist (''- Protein: '' @ fixed numstr ''protein'' 1 totalNutrition @ ''g\<newline>'') prompt \<and>
       sublist (''- Fat: '' @ fixed numstr ''fat'' 1 totalNutrition @ ''g\<newline>'') prompt \<and>
       sublist (''- Carbohydrates: '' @ fixed numstr ''carbs'' 1 totalNutrition @ ''g\<newline>'') prompt \<and>
       sublist (''- Sugar: '' @ fixed numstr ''sugar'' 1 totalNutrition @ ''g\<newline>'') prompt \<and>
       sublist (''- Fiber: '' @ fixed numstr ''fiber'' 1 totalNutrition @ ''g\<newline>'') prompt \<and>
       sublist (''- Sodium: '' @ fixed numstr ''sodium'' 0 totalNutrition @ ''mg'') prompt"
    using eight names8 weight8 calories8 protein8 fat8 carbs8 sugar8 fiber8 sodium8 by blast
  from first second places show ?thesis by (intro conjI)
qed

lemma sample_fixed:
  "fixed (\<lambda>r. []) ''totalWeight'' 0 sample_totals = ''1501''"
  "fixed (\<lambda>r. []) ''calories'' 0 sample_totals = ''250''"
  "fixed (\<lambda>r. []) ''protein'' 1 sample_totals = ''12.5''"
  "fixed (\<lambda>r. []) ''fat'' 1 sample_totals = ''0.3''"
  "fixed (\<lambda>r. []) ''carbs'' 1 sample_totals = ''30.0''"
  "fixed (\<lambda>r. []) ''sugar'' 1 sample_totals = ''0.1''"
  "fixed (\<lambda>r. []) ''fiber'' 1 sample_totals = ''0.0''"
  "fixed (\<lambda>r. []) ''sodium'' 0 sample_totals = ''1000''"
  by code_simp+

theorem prompt_precision_witness:
  "(\<exists>prompt.
       prompt_get_n_score (\<lambda>r. []) sample_totals (JArr (map JStr [''apple'', ''rice''])) = Inr prompt \<and>
       prompt_part_001 (\<lambda>r. []) sample_totals (JArr (map JStr [''apple'', ''rice''])) = Inr prompt \<and>
       sublist ''apple, rice.\<newline>\<newline>The meal's total nutritional breakdown is:\<newline>'' prompt \<and>
       sublist ''- Calories: 250\<newline>'' prompt \<and>
       sublist ''- Protein: 12.5g\<newline>'' prompt \<and>
       sublist ''- Fat: 0.3g\<newline>'' prompt \<and>
       sublist ''- Carbohydrates: 30.0g\<newline>'' prompt \<and>
       sublist ''- Sugar: 0.1g\<newline>'' prompt \<and>
       sublist ''- Fiber: 0.0g\<newline>'' prompt \<and>
       sublist ''- Sodium: 1000mg'' prompt) \<and>
   (\<exists>prompt.
       prompt_part_002 (\<lambda>r. []) sample_totals (JArr (map JStr [''apple'', ''rice''])) = Inr prompt \<and>
       sublist ''apple, rice.\<newline>\<newline>The meal's total nutritional breakdown is:\<newline>'' prompt \<and>
       sublist ''- Total Weight: 1501g\<newline>'' prompt \<and>
       sublist ''- Calories: 250\<newline>'' prompt \<and>
       sublist ''- Protein: 12.5g\<newline>'' prompt \<and>
       sublist ''- Fat: 0.3g\<newline>'' prompt \<and>
       sublist ''- Carbohydrates: 30.0g\<newline>'' prompt \<and>
       sublist ''- Sugar: 0.1g\<newline>'' prompt \<and>
       sublist ''- Fiber: 0.0g\<newline>'' prompt \<and>
       sublist ''- Sodium: 1000mg'' prompt) \<and>
   decimal_places 0 ''1501'' \<and> decimal_places 0 ''250'' \<and>
   decimal_places 1 ''12.5'' \<and> decimal_places 1 ''0.3'' \<and>
   decimal_places 1 ''30.0'' \<and> decimal_places 1 ''0.1'' \<and>
   decimal_places 1 ''0.0'' \<and> decimal_places 0 ''1000''"
  using prompt_precision [OF sample_totals_valid, of "\<lambda>r. []" "[''apple'', ''rice'']",
      unfolded sample_fixed]
  by simp

text \<open>
  The claim as written expects the total weight in the prompt of the score handler. The
  prompts of netlify/functions/get-n-score.js and part_001 have no line for it: on the
  sample totals, whose total weight is printed as 1501, the text 1501 occurs nowhere in
  them.
\<close>

theorem total_weight_not_rendered:
  "fixed (\<lambda>r. []) ''totalWeight'' 0 sample_totals = ''1501'' \<and>
   map_sum id (sublist ''1501'')
     (prompt_get_n_score (\<lambda>r. []) sample_totals (JArr sample_names)) = Inr False \<and>
   map_sum id (sublist ''1501'')
     (prompt_part_001 (\<lambda>r. []) sample_totals (JArr sample_names)) = Inr False"
proof -
  have "map_sum id (sublist ''1501'')
     (prompt_get_n_score (\<lambda>r. []) sample_totals (JArr sample_names)) = Inr False"
    by code_simp
  then show ?thesis
    by (simp only: prompt_part_001_def sample_fixed simp_thms)
qed

end
